theory Spec2Isabelle
  imports Main
begin

section \<open>Python values used by the views\<close>

text \<open>
  A Python \<open>str\<close> is modelled as a \<open>string\<close> whose characters are the code points
  below 256 (Latin-1).  The predicates below are Python's \<open>str.isspace\<close>,
  \<open>str.isdigit\<close> and the decimal digits that \<open>int()\<close> accepts, on that range.
  \<open>str.isdigit\<close> also holds for the superscript digits U+00B2, U+00B3 and U+00B9,
  which \<open>int()\<close> rejects with ValueError.
\<close>

definition isspace :: "char \<Rightarrow> bool" where
  "isspace ch =
     (let n = (of_char ch :: nat)
      in (9 \<le> n \<and> n \<le> 13) \<or> (28 \<le> n \<and> n \<le> 32) \<or> n = 133 \<or> n = 160)"

definition isdecimal :: "char \<Rightarrow> bool" where
  "isdecimal ch = (let n = (of_char ch :: nat) in 48 \<le> n \<and> n \<le> 57)"

definition isdigit :: "char \<Rightarrow> bool" where
  "isdigit ch =
     (let n = (of_char ch :: nat) in (48 \<le> n \<and> n \<le> 57) \<or> n = 178 \<or> n = 179 \<or> n = 185)"

definition strip :: "string \<Rightarrow> string" where
  "strip s = rev (dropWhile isspace (rev (dropWhile isspace s)))"

definition digit_val :: "char \<Rightarrow> nat" where
  "digit_val ch = of_char ch - 48"

text \<open>
  The digits part of an \<open>int()\<close> literal: decimal digits, with single underscores
  allowed between two digits.  \<open>None\<close> is ValueError.
\<close>

fun py_digits :: "string \<Rightarrow> nat \<Rightarrow> nat option" where
  "py_digits [] acc = Some acc"
| "py_digits (c # cs) acc =
     (if isdecimal c then py_digits cs (10 * acc + digit_val c)
      else if c = CHR ''_'' then
        (case cs of
           [] \<Rightarrow> None
         | d # ds \<Rightarrow> if isdecimal d then py_digits cs acc else None)
      else None)"

definition py_nat :: "string \<Rightarrow> nat option" where
  "py_nat s =
     (case s of
        [] \<Rightarrow> None
      | c # cs \<Rightarrow> if isdecimal c then py_digits s 0 else None)"

definition py_int :: "string \<Rightarrow> int option" where
  "py_int s =
     (case strip s of
        [] \<Rightarrow> None
      | c # cs \<Rightarrow>
          if c = CHR ''-'' then map_option (\<lambda>n. - int n) (py_nat cs)
          else if c = CHR ''+'' then map_option int (py_nat cs)
          else map_option int (py_nat (c # cs)))"

definition digit_char :: "nat \<Rightarrow> char" where
  "digit_char d = char_of (48 + d)"

function str_nat :: "nat \<Rightarrow> string" where
  "str_nat n = (if n < 10 then [digit_char n] else str_nat (n div 10) @ [digit_char (n mod 10)])"
  by pat_completeness auto
termination
  by (relation "measure (\<lambda>n. n)") auto

declare str_nat.simps [simp del]

definition str_int :: "int \<Rightarrow> string" where
  "str_int i = (if i < 0 then CHR ''-'' # str_nat (nat (- i)) else str_nat (nat i))"

text \<open>Python's \<open>max\<close> of a non-empty list, seeded with its first element.\<close>

fun py_max :: "int \<Rightarrow> int list \<Rightarrow> int" where
  "py_max m [] = m"
| "py_max m (x # xs) = py_max (if m < x then x else m) xs"

section \<open>The data model (models.py)\<close>

datatype item_type = TRAILER | COMPONENT

datatype trailer_status = IN_STOCK | SOLD | RESERVED | IN_TRANSIT | DECOMMISSIONED

text \<open>
  A JSON value of a flat reply object of the signing service: a string, a number or null.
\<close>

datatype jval = JStr string | JInt int | JNull

text \<open>
  Rows of the tables.  A nullable column is an \<open>option\<close>; primary keys are the
  \<open>id_*\<close> fields (the source names each of them \<open>id\<close>).  The timestamps
  \<open>created_at\<close> and \<open>sigex_expire_at\<close>, which no view reads or assigns, are left out.
\<close>

record Item =
  id_i :: nat
  item_type :: item_type
  article :: "string option"
  size_body :: "string option"
  axle_count :: "int option"
  wheel_radius :: "string option"
  board_height_mm :: "int option"
  has_tent :: "bool option"
  tent_hight_mm :: "int option"
  has_jockey_wheel :: "bool option"
  is_active :: bool

record Trailer =
  id_t :: nat
  vin :: string
  item_id :: nat
  warehouse_id :: nat
  manufacture_date :: "nat option"
  status :: trailer_status

record SalesContract =
  id_c :: nat
  contract_number :: "string option"
  contract_date :: "nat option"
  customer_id :: "nat option"
  trailer_id :: "nat option"
  price :: "nat option"
  payment_method :: "string option"
  source :: "string option"
  is_paid :: bool
  is_shipped :: bool
  sigex_document_id :: "string option"
  sigex_operation_id :: "string option"
  sigex_last_status :: "string option"
  sigex_last_sign_id :: "jval option"

text \<open>
  The store: the rows of each table in the store's default order.
\<close>

record store =
  items :: "Item list"
  trailers :: "Trailer list"
  contracts :: "SalesContract list"

section \<open>Contract numbers (views.py)\<close>

text \<open>
  \<open>get_next_contract_number\<close>: the query keeps the contract numbers that are neither
  NULL nor the empty string; the loop keeps the digits of each, skips an entry without
  digits or one \<open>int()\<close> rejects, and collects the numbers; the result is
  \<open>str(max(numbers) + 1)\<close>, or \<open>'1'\<close> for an empty list.
\<close>

definition contract_number_rows :: "store \<Rightarrow> string list" where
  "contract_number_rows db =
     concat (map (\<lambda>c. case contract_number c of
                          None \<Rightarrow> []
                        | Some cn \<Rightarrow> if cn \<noteq> [] then [cn] else [])
                 (contracts db))"

fun collect_numbers :: "string list \<Rightarrow> int list \<Rightarrow> int list" where
  "collect_numbers [] numbers = numbers"
| "collect_numbers (cn # rows) numbers =
     (let s = filter isdigit cn
      in if s = [] then collect_numbers rows numbers
         else (case py_int s of
                 None \<Rightarrow> collect_numbers rows numbers
               | Some n \<Rightarrow> collect_numbers rows (numbers @ [n])))"

definition get_next_contract_number :: "store \<Rightarrow> string" where
  "get_next_contract_number db =
     (case collect_numbers (contract_number_rows db) [] of
        [] \<Rightarrow> ''1''
      | n # ns \<Rightarrow> str_int (py_max n ns + 1))"

text \<open>
  The specification's wording of the same function: the integer extracted from a
  contract number is the value of its digits, absent when there is none or when the
  digits do not parse; the next number is one more than the greatest extracted integer.
\<close>

definition extracted_number :: "string \<Rightarrow> int option" where
  "extracted_number cn = py_int (filter isdigit cn)"

definition extracted_numbers :: "store \<Rightarrow> int set" where
  "extracted_numbers db =
     {n. \<exists>c \<in> set (contracts db). \<exists>cn. contract_number c = Some cn \<and> cn \<noteq> [] \<and>
           extracted_number cn = Some n}"

definition next_number_spec :: "store \<Rightarrow> string" where
  "next_number_spec db =
     (if extracted_numbers db = {} then ''1'' else str_int (Max (extracted_numbers db) + 1))"

section \<open>Requests, responses and faults\<close>

text \<open>
  The messages a view shows (flashed, or attached to a form field).  The source's texts
  are Russian; each constructor stands for one of them.
\<close>

datatype flash =
    Model_not_found | Bad_board_height | Trailer_created | Trailer_updated
  | Trailer_not_found | Contract_exists | Trailer_already_sold | Number_exists
  | Save_conflict | Contract_created | Other_contract_exists | Edit_conflict
  | Contract_updated | Contract_deleted

datatype page = Trailer_form | Contract_form

datatype endpoint = Trailers_list | Contracts_list

datatype response =
    Rendered page "flash option"
  | Redirected endpoint flash
  | Jsonified "(string \<times> jval) list"
  | PdfResponse string

text \<open>
  What ends a request without a response of the view: \<open>abort\<close> (404 from
  \<open>get_or_404\<close>, 400), and the exceptions no handler of the view catches.
\<close>

datatype db_error = IntegrityError | StaleDataError

datatype fault =
    NotFound
  | BadRequest string
  | KeyError string
  | NameError string
  | SigexNotConfigured
  | UpstreamError
  | RendererError
  | DbError db_error

type_synonym 'a outcome = "(fault + response) \<times> 'a"

section \<open>SQL predicates\<close>

text \<open>
  A comparison on a nullable column is three-valued: \<open>None\<close> is SQL's unknown.  A
  \<open>filter\<close> keeps the rows on which the predicate is true.  SQLAlchemy renders
  \<open>column == None\<close> as \<open>IS NULL\<close>.
\<close>

definition sql_eq :: "'a option \<Rightarrow> 'a \<Rightarrow> bool option" where
  "sql_eq col v = map_option (\<lambda>x. x = v) col"

definition sql_is_null :: "'a option \<Rightarrow> bool option" where
  "sql_is_null col = Some (col = None)"

definition sa_eq :: "'a option \<Rightarrow> 'a option \<Rightarrow> bool option" where
  "sa_eq col v = (case v of None \<Rightarrow> sql_is_null col | Some x \<Rightarrow> sql_eq col x)"

definition sql_or :: "bool option \<Rightarrow> bool option \<Rightarrow> bool option" where
  "sql_or a b =
     (if a = Some True \<or> b = Some True then Some True
      else if a = Some False \<and> b = Some False then Some False
      else None)"

definition sql_and :: "bool option \<Rightarrow> bool option \<Rightarrow> bool option" where
  "sql_and a b =
     (if a = Some False \<or> b = Some False then Some False
      else if a = Some True \<and> b = Some True then Some True
      else None)"

definition sql_where :: "('a \<Rightarrow> bool option) \<Rightarrow> 'a list \<Rightarrow> 'a list" where
  "sql_where p rows = filter (\<lambda>r. p r = Some True) rows"

definition first :: "'a list \<Rightarrow> 'a option" where
  "first rows = (case rows of [] \<Rightarrow> None | r # _ \<Rightarrow> Some r)"

text \<open>Python truth of an optional string and of an optional integer.\<close>

definition truthy_str :: "string option \<Rightarrow> bool" where
  "truthy_str s = (case s of None \<Rightarrow> False | Some x \<Rightarrow> x \<noteq> [])"

definition truthy_int :: "int option \<Rightarrow> bool" where
  "truthy_int n = (case n of None \<Rightarrow> False | Some x \<Rightarrow> x \<noteq> 0)"

section \<open>The model matcher (views.py, \<open>_find_item_for_form\<close>)\<close>

text \<open>
  The data of a submitted \<open>TrailerCreateForm\<close>.  A field that was not sent is
  \<open>None\<close>; the select fields with \<open>coerce=int\<close> hold integers.
  \<open>validate_on_submit\<close> is the verdict of the form library on the request.
\<close>

record TrailerCreateForm =
  f_vin :: string
  f_warehouse_id :: nat
  f_manufacture_date :: "nat option"
  f_status :: trailer_status
  f_size_body :: "string option"
  f_axle_count :: "int option"
  f_wheel_radius :: "string option"
  f_board_height_mm :: "string option"
  f_tent_height_mm :: "int option"
  f_has_jockey_wheel :: "int option"
  f_validate_on_submit :: bool

text \<open>
  The optional filter on the board height: the field's text goes through \<open>int()\<close>,
  and a ValueError ends the search with its own message.
\<close>

definition board_height_filter :: "TrailerCreateForm \<Rightarrow> Item list \<Rightarrow> flash + Item list" where
  "board_height_filter form q =
     (case f_board_height_mm form of
        None \<Rightarrow> Inr q
      | Some s \<Rightarrow>
          if s = [] then Inr q
          else (case py_int s of
                  None \<Rightarrow> Inl Bad_board_height
                | Some bh \<Rightarrow> Inr (sql_where (\<lambda>i. sql_eq (board_height_mm i) bh) q)))"

definition find_item_for_form :: "store \<Rightarrow> TrailerCreateForm \<Rightarrow> flash + Item" where
  "find_item_for_form db form =
     (let q0 = filter (\<lambda>i. item_type i = TRAILER \<and> is_active i) (items db);
          q1 = (if truthy_str (f_size_body form)
                then sql_where (\<lambda>i. sa_eq (size_body i) (f_size_body form)) q0 else q0);
          q2 = (if truthy_int (f_axle_count form)
                then sql_where (\<lambda>i. sa_eq (axle_count i) (f_axle_count form)) q1 else q1);
          q3 = (if truthy_str (f_wheel_radius form)
                then sql_where (\<lambda>i. sa_eq (wheel_radius i) (f_wheel_radius form)) q2 else q2)
      in case board_height_filter form q3 of
           Inl e \<Rightarrow> Inl e
         | Inr q4 \<Rightarrow>
             (let has_jw = f_has_jockey_wheel form;
                  q5 = sql_where (\<lambda>i. sql_eq (has_jockey_wheel i) (has_jw = Some 1)) q4;
                  tent_h = f_tent_height_mm form;
                  q6 = (if tent_h = Some 0
                        then sql_where (\<lambda>i. sql_or (sql_eq (has_tent i) False)
                                                    (sql_is_null (tent_hight_mm i))) q5
                        else sql_where (\<lambda>i. sql_and (sql_eq (has_tent i) True)
                                                     (sa_eq (tent_hight_mm i) tent_h)) q5)
              in case first q6 of
                   None \<Rightarrow> Inl Model_not_found
                 | Some item \<Rightarrow> Inr item))"

text \<open>
  The specification's wording of the filter set: every supplied criterion is an exact
  equality, a criterion that is not supplied filters nothing, the jockey wheel is always
  compared, and the tent height \<open>0\<close> stands for "no tent".
\<close>

definition satisfies :: "TrailerCreateForm \<Rightarrow> int option \<Rightarrow> Item \<Rightarrow> bool" where
  "satisfies form bh i =
     (item_type i = TRAILER \<and> is_active i \<and>
      (truthy_str (f_size_body form) \<longrightarrow> size_body i = f_size_body form) \<and>
      (truthy_int (f_axle_count form) \<longrightarrow> axle_count i = f_axle_count form) \<and>
      (truthy_str (f_wheel_radius form) \<longrightarrow> wheel_radius i = f_wheel_radius form) \<and>
      (bh \<noteq> None \<longrightarrow> board_height_mm i = bh) \<and>
      has_jockey_wheel i = Some (f_has_jockey_wheel form = Some 1) \<and>
      (if f_tent_height_mm form = Some 0
       then has_tent i = Some False \<or> tent_hight_mm i = None
       else has_tent i = Some True \<and> tent_hight_mm i = f_tent_height_mm form))"

text \<open>
  The board height criterion of a form: \<open>Inr None\<close> when none is supplied,
  \<open>Inr (Some h)\<close> for the integer \<open>h\<close>, \<open>Inl e\<close> when the text is no integer.
\<close>

definition board_height_criterion :: "TrailerCreateForm \<Rightarrow> flash + int option" where
  "board_height_criterion form =
     (case f_board_height_mm form of
        None \<Rightarrow> Inr None
      | Some s \<Rightarrow>
          if s = [] then Inr None
          else (case py_int s of
                  None \<Rightarrow> Inl Bad_board_height
                | Some h \<Rightarrow> Inr (Some h)))"

section \<open>Trailers (views.py)\<close>

text \<open>The next primary key of a table: one more than the greatest key in use.\<close>

definition next_id :: "nat list \<Rightarrow> nat" where
  "next_id ids = Suc (fold max ids 0)"

definition get_trailer :: "store \<Rightarrow> nat \<Rightarrow> Trailer option" where
  "get_trailer db i = find (\<lambda>t. id_t t = i) (trailers db)"

definition get_contract :: "store \<Rightarrow> nat \<Rightarrow> SalesContract option" where
  "get_contract db i = find (\<lambda>c. id_c c = i) (contracts db)"

text \<open>
  \<open>trailer_create\<close>: a request that does not validate renders the form; a search
  that fails flashes its message and renders the form; otherwise the trailer is
  inserted with the status chosen in the form.  The commit fails with an
  IntegrityError, which the view does not catch, when the VIN is in use.
\<close>

definition trailer_create :: "store \<Rightarrow> TrailerCreateForm \<Rightarrow> store outcome" where
  "trailer_create db form =
     (if f_validate_on_submit form then
        (case find_item_for_form db form of
           Inl error \<Rightarrow> (Inr (Rendered Trailer_form (Some error)), db)
         | Inr item \<Rightarrow>
             (let trailer = \<lparr>id_t = next_id (map id_t (trailers db)),
                             vin = strip (f_vin form),
                             item_id = id_i item,
                             warehouse_id = f_warehouse_id form,
                             manufacture_date = f_manufacture_date form,
                             status = f_status form\<rparr>
              in if \<exists>t \<in> set (trailers db). vin t = vin trailer
                 then (Inl (DbError IntegrityError), db)
                 else (Inr (Redirected Trailers_list Trailer_created),
                       db\<lparr>trailers := trailers db @ [trailer]\<rparr>)))
      else (Inr (Rendered Trailer_form None), db))"

text \<open>
  \<open>trailer_edit\<close>: as above, on the row with the given key, which exists or the
  request ends with 404.
\<close>

definition trailer_edit :: "store \<Rightarrow> nat \<Rightarrow> TrailerCreateForm \<Rightarrow> store outcome" where
  "trailer_edit db trailer_id' form =
     (case get_trailer db trailer_id' of
        None \<Rightarrow> (Inl NotFound, db)
      | Some trailer \<Rightarrow>
          if f_validate_on_submit form then
            (case find_item_for_form db form of
               Inl error \<Rightarrow> (Inr (Rendered Trailer_form (Some error)), db)
             | Inr item \<Rightarrow>
                 (let trailer' = trailer\<lparr>vin := strip (f_vin form),
                                         warehouse_id := f_warehouse_id form,
                                         manufacture_date := f_manufacture_date form,
                                         status := f_status form,
                                         item_id := id_i item\<rparr>
                  in if \<exists>t \<in> set (trailers db). id_t t \<noteq> trailer_id' \<and> vin t = vin trailer'
                     then (Inl (DbError IntegrityError), db)
                     else (Inr (Redirected Trailers_list Trailer_updated),
                           db\<lparr>trailers := map (\<lambda>t. if id_t t = trailer_id' then trailer' else t)
                                               (trailers db)\<rparr>)))
          else (Inr (Rendered Trailer_form None), db))"

section \<open>The contract lifecycle (views.py)\<close>

record SalesContractForm =
  form_contract_date :: "nat option"
  form_contract_number :: "string option"
  form_customer_id :: nat
  form_trailer_id :: nat
  form_price :: "nat option"
  form_payment_method :: "string option"
  form_is_paid :: bool
  form_is_shipped :: bool
  form_validate_on_submit :: bool

definition norm_str :: "string option \<Rightarrow> string option" where
  "norm_str s =
     (let s' = strip (case s of None \<Rightarrow> [] | Some x \<Rightarrow> x)
      in if s' = [] then None else Some s')"

definition is_contract_number_unique :: "store \<Rightarrow> string option \<Rightarrow> nat option \<Rightarrow> bool" where
  "is_contract_number_unique db number exclude_id =
     (case number of
        None \<Rightarrow> True
      | Some n \<Rightarrow>
          if n = [] then True
          else (let q = sql_where (\<lambda>c. sql_eq (contract_number c) n) (contracts db);
                    q' = (case exclude_id of
                            None \<Rightarrow> q
                          | Some e \<Rightarrow> if e \<noteq> 0 then filter (\<lambda>c. id_c c \<noteq> e) q else q)
                in length q' = 0))"

definition set_status :: "nat \<Rightarrow> trailer_status \<Rightarrow> Trailer list \<Rightarrow> Trailer list" where
  "set_status i s ts = map (\<lambda>t. if id_t t = i then t\<lparr>status := s\<rparr> else t) ts"

text \<open>The contracts that reference a trailer: \<open>filter(SalesContract.trailer_id == i)\<close>.\<close>

definition contracts_of :: "nat \<Rightarrow> SalesContract list \<Rightarrow> SalesContract list" where
  "contracts_of i cs = sql_where (\<lambda>c. sql_eq (trailer_id c) i) cs"

text \<open>\<open>contract.trailer\<close>: the row the foreign key points to, if there is one.\<close>

definition trailer_of :: "store \<Rightarrow> SalesContract \<Rightarrow> Trailer option" where
  "trailer_of db c = (case trailer_id c of None \<Rightarrow> None | Some i \<Rightarrow> get_trailer db i)"

text \<open>
  The number of a new contract: the normalised number of the form, or the next
  number when the form has none.
\<close>

definition number_for_create :: "store \<Rightarrow> SalesContractForm \<Rightarrow> string option" where
  "number_for_create db form =
     (let cn = norm_str (form_contract_number form)
      in if \<not> truthy_str cn then Some (get_next_contract_number db) else cn)"

text \<open>
  The \<open>SalesContract(...)\<close> that \<open>contract_create\<close> builds; its key is assigned
  when the row is inserted.
\<close>

definition new_contract :: "SalesContractForm \<Rightarrow> string option \<Rightarrow> nat \<Rightarrow> SalesContract" where
  "new_contract form cn i =
     \<lparr>id_c = 0,
      contract_number = cn,
      contract_date = form_contract_date form,
      customer_id = Some (form_customer_id form),
      trailer_id = Some i,
      price = form_price form,
      payment_method = norm_str (form_payment_method form),
      source = Some ''manual'',
      is_paid = form_is_paid form,
      is_shipped = form_is_shipped form,
      sigex_document_id = None,
      sigex_operation_id = None,
      sigex_last_status = None,
      sigex_last_sign_id = None\<rparr>"

text \<open>The assignments of \<open>contract_edit\<close> to the fields of the contract.\<close>

definition assign_form ::
  "SalesContract \<Rightarrow> SalesContractForm \<Rightarrow> string option \<Rightarrow> nat \<Rightarrow> SalesContract" where
  "assign_form contract form cn i =
     contract\<lparr>contract_number := cn,
              contract_date := form_contract_date form,
              customer_id := Some (form_customer_id form),
              trailer_id := Some i,
              price := form_price form,
              payment_method := norm_str (form_payment_method form),
              is_paid := form_is_paid form,
              is_shipped := form_is_shipped form\<rparr>"

text \<open>
  The commit of \<open>contract_create\<close> against the store as it is when the request
  commits: the changed status is written to the trailer's row (no such row left:
  StaleDataError), then the contract is inserted; the constraint
  \<open>uq_sales_contract_trailer\<close> rejects a second contract of the same trailer with
  an IntegrityError.  A failed commit writes nothing.
\<close>

definition commit_new_contract :: "store \<Rightarrow> nat \<Rightarrow> SalesContract \<Rightarrow> db_error + store" where
  "commit_new_contract db i contract =
     (if get_trailer db i = None then Inl StaleDataError
      else if contracts_of i (contracts db) \<noteq> [] then Inl IntegrityError
      else Inr (db\<lparr>trailers := set_status i SOLD (trailers db),
                  contracts := contracts db @
                    [contract\<lparr>id_c := next_id (map id_c (contracts db))\<rparr>]\<rparr>))"

text \<open>
  \<open>contract_create\<close>.  The request reads the store \<open>db\<close>; \<open>db'\<close> is the store
  when the request commits, which differs from \<open>db\<close> when another request has
  committed in between.  The second component of the result is the store after the
  request.
\<close>

definition contract_create_at ::
  "store \<Rightarrow> store \<Rightarrow> SalesContractForm \<Rightarrow> store outcome" where
  "contract_create_at db db' form =
     (if form_validate_on_submit form then
        (case get_trailer db (form_trailer_id form) of
           None \<Rightarrow> (Inr (Rendered Contract_form (Some Trailer_not_found)), db')
         | Some trailer \<Rightarrow>
             if first (contracts_of (id_t trailer) (contracts db)) \<noteq> None
             then (Inr (Rendered Contract_form (Some Contract_exists)), db')
             else if status trailer = SOLD
             then (Inr (Rendered Contract_form (Some Trailer_already_sold)), db')
             else
               (let cn = number_for_create db form
                in if \<not> is_contract_number_unique db cn None
                   then (Inr (Rendered Contract_form (Some Number_exists)), db')
                   else
                     (let contract = new_contract form cn (id_t trailer)
                      in case commit_new_contract db' (id_t trailer) contract of
                           Inl IntegrityError \<Rightarrow>
                             (Inr (Rendered Contract_form (Some Save_conflict)), db')
                         | Inl StaleDataError \<Rightarrow> (Inl (DbError StaleDataError), db')
                         | Inr db'' \<Rightarrow>
                             (Inr (Redirected Contracts_list Contract_created), db''))))
      else (Inr (Rendered Contract_form None), db'))"

text \<open>A request with no other request committing in between.\<close>

definition contract_create :: "store \<Rightarrow> SalesContractForm \<Rightarrow> store outcome" where
  "contract_create db form = contract_create_at db db form"

text \<open>
  \<open>contract_edit\<close>, with no other request in between.  The commit checks the
  constraint on the edited row.
\<close>

definition contract_edit :: "store \<Rightarrow> nat \<Rightarrow> SalesContractForm \<Rightarrow> store outcome" where
  "contract_edit db contract_id form =
     (case get_contract db contract_id of
        None \<Rightarrow> (Inl NotFound, db)
      | Some contract \<Rightarrow>
          if form_validate_on_submit form then
            (let old_trailer = trailer_of db contract
             in case get_trailer db (form_trailer_id form) of
                  None \<Rightarrow> (Inr (Rendered Contract_form (Some Trailer_not_found)), db)
                | Some new_trailer \<Rightarrow>
                    (let exists_other =
                           first (filter (\<lambda>c. id_c c \<noteq> id_c contract)
                                    (contracts_of (id_t new_trailer) (contracts db)))
                     in if exists_other \<noteq> None
                        then (Inr (Rendered Contract_form (Some Other_contract_exists)), db)
                        else
                          (let cn = norm_str (form_contract_number form)
                           in if truthy_str cn \<and>
                                 \<not> is_contract_number_unique db cn (Some (id_c contract))
                              then (Inr (Rendered Contract_form (Some Number_exists)), db)
                              else
                                (let ts =
                                       (case old_trailer of
                                          None \<Rightarrow> trailers db
                                        | Some old \<Rightarrow>
                                            if id_t old \<noteq> id_t new_trailer then
                                              (let other_cnt =
                                                     length (filter (\<lambda>c. id_c c \<noteq> id_c contract)
                                                       (contracts_of (id_t old) (contracts db)))
                                               in if other_cnt = 0
                                                  then set_status (id_t old) IN_STOCK (trailers db)
                                                  else trailers db)
                                            else trailers db);
                                     ts' = set_status (id_t new_trailer) SOLD ts;
                                     contract' =
                                       assign_form contract form cn (id_t new_trailer)
                                 in if filter (\<lambda>c. id_c c \<noteq> id_c contract)
                                         (contracts_of (id_t new_trailer) (contracts db)) \<noteq> []
                                    then (Inr (Rendered Contract_form (Some Edit_conflict)), db)
                                    else (Inr (Redirected Contracts_list Contract_updated),
                                          db\<lparr>trailers := ts',
                                             contracts :=
                                               map (\<lambda>c. if id_c c = id_c contract
                                                         then contract' else c)
                                                   (contracts db)\<rparr>)))))
          else (Inr (Rendered Contract_form None), db))"

text \<open>
  \<open>contract_delete\<close>: the contract is deleted and the deletion flushed; the
  contracts that still reference the trailer are counted, and the trailer goes back to
  IN_STOCK when there is none.
\<close>

definition contract_delete :: "store \<Rightarrow> nat \<Rightarrow> store outcome" where
  "contract_delete db contract_id =
     (case get_contract db contract_id of
        None \<Rightarrow> (Inl NotFound, db)
      | Some contract \<Rightarrow>
          (let trailer = trailer_of db contract;
               cs = filter (\<lambda>c. id_c c \<noteq> id_c contract) (contracts db);
               ts = (case trailer of
                       None \<Rightarrow> trailers db
                     | Some t \<Rightarrow>
                         (let other_cnt = length (contracts_of (id_t t) cs)
                          in if other_cnt = 0
                             then set_status (id_t t) IN_STOCK (trailers db)
                             else trailers db))
           in (Inr (Redirected Contracts_list Contract_deleted),
               db\<lparr>trailers := ts, contracts := cs\<rparr>)))"

text \<open>
  The invariant of the specification: a trailer is SOLD exactly when a contract
  references it.
\<close>

definition referenced :: "store \<Rightarrow> Trailer \<Rightarrow> bool" where
  "referenced db t = (\<exists>c \<in> set (contracts db). trailer_id c = Some (id_t t))"

definition sold_iff_contract :: "store \<Rightarrow> bool" where
  "sold_iff_contract db = (\<forall>t \<in> set (trailers db). (status t = SOLD) = referenced db t)"

text \<open>A contract other than contract \<open>i\<close> references the trailer \<open>k\<close>.\<close>

definition other_contract :: "store \<Rightarrow> nat \<Rightarrow> nat \<Rightarrow> bool" where
  "other_contract db i k = (\<exists>x \<in> set (contracts db). id_c x \<noteq> i \<and> trailer_id x = Some k)"

text \<open>Primary keys are unique within a table.\<close>

definition primary_keys :: "store \<Rightarrow> bool" where
  "primary_keys db =
     (distinct (map id_t (trailers db)) \<and> distinct (map id_c (contracts db)))"

text \<open>
  The stores that requests to \<open>contract_create\<close>, \<open>contract_edit\<close> and
  \<open>contract_delete\<close> lead to from a store \<open>db0\<close>.
\<close>

inductive reachable :: "store \<Rightarrow> store \<Rightarrow> bool" for db0 :: store where
  start: "reachable db0 db0"
| create: "reachable db0 db \<Longrightarrow> reachable db0 (snd (contract_create db form))"
| edit: "reachable db0 db \<Longrightarrow> reachable db0 (snd (contract_edit db i form))"
| delete: "reachable db0 db \<Longrightarrow> reachable db0 (snd (contract_delete db i))"

section \<open>The signing service client (sigex_client.py)\<close>

text \<open>
  A request body is JSON or raw bytes.  The Cyrillic literals of the source (titles,
  descriptions, names of the meta fields) are written in transliteration.
\<close>

datatype json = JS string | JI int | JB bool | JO "(string \<times> json) list" | JA "json list"

datatype http_method = GET | POST

datatype http_body = JsonBody json | OctetBody string | NoBody

record sigex_request =
  rq_method :: http_method
  rq_path :: string
  rq_params :: "(string \<times> string) list"
  rq_body :: http_body

type_synonym reply = "(string \<times> jval) list"

text \<open>
  What a request runs in: the two environment variables of the mTLS certificate, the
  signing service, and the PDF renderer.  The service answers a request, given the
  requests made before it, with a flat JSON object; \<open>None\<close> is a call that raises
  (no connection, a timeout, an HTTP error status, a body that is not JSON).  The
  renderer gives the bytes of a contract's PDF, or raises (\<open>None\<close>).
\<close>

record env =
  mtls_crt :: "string option"
  mtls_key :: "string option"
  remote :: "sigex_request list \<Rightarrow> sigex_request \<Rightarrow> reply option"
  contract_pdf_bytes :: "store \<Rightarrow> nat \<Rightarrow> string option"

text \<open>The state of the world: the store and the requests sent to the service so far.\<close>

record world =
  w_store :: store
  w_trace :: "sigex_request list"

definition cert_tuple :: "env \<Rightarrow> fault + (string \<times> string)" where
  "cert_tuple e =
     (let crt = strip (case mtls_crt e of None \<Rightarrow> [] | Some s \<Rightarrow> s);
          key = strip (case mtls_key e of None \<Rightarrow> [] | Some s \<Rightarrow> s)
      in if crt = [] \<or> key = [] then Inl SigexNotConfigured else Inr (crt, key))"

definition send :: "env \<Rightarrow> sigex_request \<Rightarrow> world \<Rightarrow> (fault + reply) \<times> world" where
  "send e rq w =
     (case cert_tuple e of
        Inl f \<Rightarrow> (Inl f, w)
      | Inr cert \<Rightarrow>
          (case remote e (w_trace w) rq of
             None \<Rightarrow> Inl UpstreamError
           | Some r \<Rightarrow> Inr r,
           w\<lparr>w_trace := w_trace w @ [rq]\<rparr>))"

definition sigex_post_json ::
  "env \<Rightarrow> string \<Rightarrow> json \<Rightarrow> (string \<times> string) list \<Rightarrow> world \<Rightarrow> (fault + reply) \<times> world" where
  "sigex_post_json e path payload params w =
     send e \<lparr>rq_method = POST, rq_path = path, rq_params = params,
             rq_body = JsonBody payload\<rparr> w"

definition sigex_get_json ::
  "env \<Rightarrow> string \<Rightarrow> (string \<times> string) list \<Rightarrow> world \<Rightarrow> (fault + reply) \<times> world" where
  "sigex_get_json e path params w =
     send e \<lparr>rq_method = GET, rq_path = path, rq_params = params, rq_body = NoBody\<rparr> w"

definition sigex_post_octet ::
  "env \<Rightarrow> string \<Rightarrow> string \<Rightarrow> (string \<times> string) list \<Rightarrow> world \<Rightarrow> (fault + reply) \<times> world" where
  "sigex_post_octet e path data_bytes params w =
     send e \<lparr>rq_method = POST, rq_path = path, rq_params = params,
             rq_body = OctetBody data_bytes\<rparr> w"

section \<open>The signing workflow (views.py)\<close>

text \<open>
  \<open>str()\<close> of a reply value, and the text SQLite keeps when the value is assigned to
  a string column (a number is stored as its text, null as NULL).
\<close>

definition py_str :: "jval \<Rightarrow> string" where
  "py_str v = (case v of JStr s \<Rightarrow> s | JInt n \<Rightarrow> str_int n | JNull \<Rightarrow> ''None'')"

definition to_text :: "jval \<Rightarrow> string option" where
  "to_text v = (case v of JStr s \<Rightarrow> Some s | JInt n \<Rightarrow> Some (str_int n) | JNull \<Rightarrow> None)"

definition to_column :: "jval option \<Rightarrow> jval option" where
  "to_column v = (case v of None \<Rightarrow> None | Some JNull \<Rightarrow> None | Some x \<Rightarrow> Some x)"

text \<open>An optional string inside an f-string, and as a JSON value.\<close>

definition fmt :: "string option \<Rightarrow> string" where
  "fmt s = (case s of None \<Rightarrow> ''None'' | Some x \<Rightarrow> x)"

definition json_of :: "string option \<Rightarrow> jval" where
  "json_of s = (case s of None \<Rightarrow> JNull | Some x \<Rightarrow> JStr x)"

text \<open>\<open>contract.contract_number or contract.id\<close>, as text.\<close>

definition number_or_id :: "SalesContract \<Rightarrow> string" where
  "number_or_id c =
     (case contract_number c of
        None \<Rightarrow> str_nat (id_c c)
      | Some n \<Rightarrow> if n \<noteq> [] then n else str_nat (id_c c))"

text \<open>\<open>str(contract.price or "")\<close>: a price is a number of hundredths.\<close>

definition price_or_empty :: "SalesContract \<Rightarrow> string" where
  "price_or_empty c =
     (case price c of
        None \<Rightarrow> []
      | Some p \<Rightarrow>
          if p = 0 then []
          else str_nat (p div 100) @ ''.'' @
               [digit_char (p mod 100 div 10), digit_char (p mod 10)])"

definition sigex_title_for_contract :: "SalesContract \<Rightarrow> string" where
  "sigex_title_for_contract c = ''Dogovor_'' @ number_or_id c @ ''.pdf''"

definition update_contract ::
  "nat \<Rightarrow> (SalesContract \<Rightarrow> SalesContract) \<Rightarrow> world \<Rightarrow> world" where
  "update_contract i f w =
     w\<lparr>w_store := (w_store w)\<lparr>contracts :=
         map (\<lambda>c. if id_c c = i then f c else c) (contracts (w_store w))\<rparr>\<rparr>"

definition register_payload :: "SalesContract \<Rightarrow> json" where
  "register_payload c =
     JO [(''title'', JS (sigex_title_for_contract c)),
         (''description'', JS (''Dogovor No. '' @ number_or_id c)),
         (''settings'',
            JO [(''private'', JB False),
                (''signaturesLimit'', JI 2),
                (''switchToPrivateAfterLimitReached'', JB True),
                (''tempStorageAfterRegistration'', JI 86400000)])]"

text \<open>
  \<open>contract_sigex_preregister\<close>: a stored document id is returned at once.  Otherwise
  the document is registered, the PDF rendered and uploaded, and the id stored.
\<close>

definition contract_sigex_preregister :: "env \<Rightarrow> nat \<Rightarrow> world \<Rightarrow> world outcome" where
  "contract_sigex_preregister e contract_id w =
     (case get_contract (w_store w) contract_id of
        None \<Rightarrow> (Inl NotFound, w)
      | Some contract \<Rightarrow>
          if truthy_str (sigex_document_id contract)
          then (Inr (Jsonified [(''documentId'', json_of (sigex_document_id contract))]), w)
          else
            (case sigex_post_json e ''/api'' (register_payload contract) [] w of
               (Inl f, w1) \<Rightarrow> (Inl f, w1)
             | (Inr reg, w1) \<Rightarrow>
                 (case map_of reg ''documentId'' of
                    None \<Rightarrow> (Inl (KeyError ''documentId''), w1)
                  | Some document_id \<Rightarrow>
                      (case contract_pdf_bytes e (w_store w1) contract_id of
                         None \<Rightarrow> (Inl RendererError, w1)
                       | Some pdf_bytes \<Rightarrow>
                           (case sigex_post_octet e
                                   (''/api/'' @ py_str document_id @ ''/data'') pdf_bytes [] w1 of
                              (Inl f, w2) \<Rightarrow> (Inl f, w2)
                            | (Inr ack, w2) \<Rightarrow>
                                (Inr (Jsonified [(''documentId'', document_id)]),
                                 update_contract contract_id
                                   (\<lambda>c. c\<lparr>sigex_document_id := to_text document_id\<rparr>) w2))))))"

definition start_qr_payload :: "SalesContract \<Rightarrow> json" where
  "start_qr_payload c =
     JO [(''description'', JS (''Podpishite dogovor No. '' @ number_or_id c)),
         (''meta'',
            JA [JO [(''name'', JS ''Nomer dogovora''), (''value'', JS (number_or_id c))],
                JO [(''name'', JS ''Summa''), (''value'', JS (price_or_empty c))]])]"

text \<open>
  \<open>contract_sigex_start_qr\<close>: needs a stored document id (400 otherwise); the
  operation id and the status are assigned after the service has answered.
\<close>

definition contract_sigex_start_qr :: "env \<Rightarrow> nat \<Rightarrow> world \<Rightarrow> world outcome" where
  "contract_sigex_start_qr e contract_id w =
     (case get_contract (w_store w) contract_id of
        None \<Rightarrow> (Inl NotFound, w)
      | Some contract \<Rightarrow>
          if \<not> truthy_str (sigex_document_id contract)
          then (Inl (BadRequest ''SIGEX document not preregistered''), w)
          else
            (case sigex_post_json e
                    (''/api/'' @ fmt (sigex_document_id contract) @ ''/egovQr'')
                    (start_qr_payload contract) [] w of
               (Inl f, w1) \<Rightarrow> (Inl f, w1)
             | (Inr res, w1) \<Rightarrow>
                 (case map_of res ''operationId'' of
                    None \<Rightarrow> (Inl (KeyError ''operationId''), w1)
                  | Some operation_id \<Rightarrow>
                      (Inr (Jsonified res),
                       update_contract contract_id
                         (\<lambda>c. c\<lparr>sigex_operation_id := to_text operation_id,
                                sigex_last_status := Some ''qr_started''\<rparr>) w1))))"

text \<open>
  \<open>contract_sigex_qr_status\<close>: needs a stored document id and a stored operation id
  (400 otherwise); stores the status of the answer, and the signature id when the
  status is \<open>done\<close>.
\<close>

definition contract_sigex_qr_status :: "env \<Rightarrow> nat \<Rightarrow> world \<Rightarrow> world outcome" where
  "contract_sigex_qr_status e contract_id w =
     (case get_contract (w_store w) contract_id of
        None \<Rightarrow> (Inl NotFound, w)
      | Some contract \<Rightarrow>
          if \<not> (truthy_str (sigex_document_id contract) \<and>
                truthy_str (sigex_operation_id contract))
          then (Inl (BadRequest ''No active operation''), w)
          else
            (case sigex_get_json e
                    (''/api/'' @ fmt (sigex_document_id contract) @ ''/egovOperation/'' @
                     fmt (sigex_operation_id contract)) [] w of
               (Inl f, w1) \<Rightarrow> (Inl f, w1)
             | (Inr res, w1) \<Rightarrow>
                 (let status' = map_of res ''status'';
                      set_status_col =
                        (\<lambda>c. c\<lparr>sigex_last_status :=
                                   (case status' of None \<Rightarrow> None | Some v \<Rightarrow> to_text v)\<rparr>);
                      set_sign_id =
                        (\<lambda>c. if status' = Some (JStr ''done'')
                              then c\<lparr>sigex_last_sign_id := to_column (map_of res ''signId'')\<rparr>
                              else c)
                  in (Inr (Jsonified res),
                      update_contract contract_id (\<lambda>c. set_sign_id (set_status_col c)) w1))))"




section \<open>Example rows\<close>

definition mk_contract :: "nat \<Rightarrow> string option \<Rightarrow> nat option \<Rightarrow> SalesContract" where
  "mk_contract i cn t =
     \<lparr>id_c = i, contract_number = cn, contract_date = None, customer_id = None,
      trailer_id = t, price = None, payment_method = None, source = None,
      is_paid = False, is_shipped = False, sigex_document_id = None,
      sigex_operation_id = None, sigex_last_status = None, sigex_last_sign_id = None\<rparr>"

definition numbered_store :: store where
  "numbered_store =
     \<lparr>items = [], trailers = [],
      contracts = [mk_contract 1 (Some ''5'') None, mk_contract 2 (Some ''CN-12'') None,
                   mk_contract 3 (Some ''7'') None]\<rparr>"


definition mk_item :: "nat \<Rightarrow> bool option \<Rightarrow> int option \<Rightarrow> Item" where
  "mk_item i tent h =
     \<lparr>id_i = i, item_type = TRAILER, article = Some ''A'', size_body = Some ''2000x1300'',
      axle_count = Some 1, wheel_radius = Some ''R13'', board_height_mm = Some 300,
      has_tent = tent, tent_hight_mm = h, has_jockey_wheel = Some True, is_active = True\<rparr>"

definition catalog :: store where
  "catalog =
     \<lparr>items = [(mk_item 1 (Some True) (Some 30))\<lparr>is_active := False\<rparr>,
               mk_item 2 (Some True) (Some 60),
               mk_item 3 (Some False) None,
               mk_item 4 (Some True) (Some 60)],
      trailers = [\<lparr>id_t = 1, vin = ''X9A00000200002'', item_id = 3, warehouse_id = 1,
                   manufacture_date = None, status = IN_STOCK\<rparr>],
      contracts = []\<rparr>"

definition mk_form :: "int option \<Rightarrow> trailer_status \<Rightarrow> TrailerCreateForm" where
  "mk_form tent st =
     \<lparr>f_vin = ''X9A00000100001'', f_warehouse_id = 1, f_manufacture_date = None,
      f_status = st, f_size_body = Some ''2000x1300'', f_axle_count = Some 1,
      f_wheel_radius = Some ''R13'', f_board_height_mm = Some ''300'',
      f_tent_height_mm = tent, f_has_jockey_wheel = Some 1,
      f_validate_on_submit = True\<rparr>"

definition mk_trailer :: "nat \<Rightarrow> trailer_status \<Rightarrow> Trailer" where
  "mk_trailer i st =
     \<lparr>id_t = i, vin = ''X9A0000010000'' @ str_nat i, item_id = 3, warehouse_id = 1,
      manufacture_date = None, status = st\<rparr>"

definition mk_contract_form :: "nat \<Rightarrow> string option \<Rightarrow> SalesContractForm" where
  "mk_contract_form t cn =
     \<lparr>form_contract_date = None, form_contract_number = cn, form_customer_id = 1,
      form_trailer_id = t, form_price = Some 250, form_payment_method = Some ''cash'',
      form_is_paid = False, form_is_shipped = False, form_validate_on_submit = True\<rparr>"

definition stock_store :: store where
  "stock_store = \<lparr>items = [], trailers = [mk_trailer 1 IN_STOCK, mk_trailer 2 IN_STOCK],
                   contracts = []\<rparr>"

definition sold_store :: store where
  "sold_store = \<lparr>items = [], trailers = [mk_trailer 1 SOLD, mk_trailer 2 IN_STOCK],
                  contracts = [mk_contract 1 (Some ''5'') (Some 1)]\<rparr>"

definition double_store :: store where
  "double_store = \<lparr>items = [], trailers = [mk_trailer 1 SOLD, mk_trailer 2 IN_STOCK],
                    contracts = [mk_contract 1 (Some ''5'') (Some 1),
                                 mk_contract 2 (Some ''6'') (Some 1)]\<rparr>"

text \<open>
  A configured environment whose service registers every document as \<open>doc-1\<close> and
  gives the same answer to every other request.
\<close>

definition sigex_env :: "reply option \<Rightarrow> env" where
  "sigex_env answer =
     \<lparr>mtls_crt = Some ''/etc/sigex/client.crt'', mtls_key = Some ''/etc/sigex/client.key'',
      remote = (\<lambda>trace rq. if rq_path rq = ''/api''
                            then Some [(''documentId'', JStr ''doc-1'')] else answer),
      contract_pdf_bytes = (\<lambda>db i. Some ''%PDF-1.4'')\<rparr>"

definition unregistered_world :: world where
  "unregistered_world = \<lparr>w_store = sold_store, w_trace = []\<rparr>"

definition registered_contract :: SalesContract where
  "registered_contract =
     (mk_contract 1 (Some ''5'') (Some 1))
       \<lparr>sigex_document_id := Some ''doc-1'', sigex_last_status := Some ''org_signed''\<rparr>"

definition registered_world :: world where
  "registered_world =
     \<lparr>w_store = sold_store\<lparr>contracts := [registered_contract]\<rparr>, w_trace = []\<rparr>"

section \<open>Auto-numbering\<close>

lemma py_int_Nil: "py_int [] = None"
  by (simp add: py_int_def strip_def)

lemma collect_numbers_eq:
  "collect_numbers rows acc = acc @ List.map_filter extracted_number rows"
proof (induction rows arbitrary: acc)
  case Nil
  show ?case by simp
next
  case (Cons cn rows)
  show ?case
  proof (cases "py_int (filter isdigit cn)")
    case None
    then show ?thesis
      by (simp add: Cons.IH extracted_number_def Let_def)
  next
    case (Some n)
    then have "filter isdigit cn \<noteq> []"
      using py_int_Nil by auto
    with Some show ?thesis
      by (simp add: Cons.IH extracted_number_def Let_def)
  qed
qed

lemma py_max_eq: "py_max m xs = Max (insert m (set xs))"
proof (induction xs arbitrary: m)
  case Nil
  show ?case by simp
next
  case (Cons x xs)
  have "Max (insert m (insert x (set xs))) = Max (insert (max m x) (set xs))"
    by (metis List.finite_set Max_insert Max_singleton finite_insert max.assoc
        insert_not_empty)
  then show ?case
    by (simp add: Cons.IH max_def)
qed

lemma set_contract_number_rows:
  "set (contract_number_rows db) =
     {cn. \<exists>c \<in> set (contracts db). contract_number c = Some cn \<and> cn \<noteq> []}"
  by (auto simp: contract_number_rows_def split: option.splits if_splits)

lemma set_map_filter: "set (List.map_filter f xs) = {y. \<exists>x \<in> set xs. f x = Some y}"
  by (induction xs) (auto split: option.splits)

lemma set_collected:
  "set (collect_numbers (contract_number_rows db) []) = extracted_numbers db"
  by (auto simp: collect_numbers_eq set_map_filter set_contract_number_rows
      extracted_numbers_def)

lemma get_next_contract_number_refines:
  "get_next_contract_number db = next_number_spec db"
proof (cases "collect_numbers (contract_number_rows db) []")
  case Nil
  then have "extracted_numbers db = {}"
    using set_collected [of db] by simp
  with Nil show ?thesis
    by (simp add: get_next_contract_number_def next_number_spec_def)
next
  case (Cons n ns)
  then have "extracted_numbers db = insert n (set ns)"
    using set_collected [of db] by simp
  with Cons show ?thesis
    by (simp add: get_next_contract_number_def next_number_spec_def py_max_eq)
qed

lemma numbered_store_next: "get_next_contract_number numbered_store = ''13''"
  by code_simp

text \<open>
  C7.  For every store, \<open>get_next_contract_number\<close> returns what the specification
  describes: over the contract numbers that are neither NULL nor empty, the integer
  extracted from a number is the value of its digit characters (absent when there is no
  digit or the digits do not parse), and the result is the decimal string of the greatest
  extracted integer plus one, or \<open>'1'\<close> when no integer was extracted.  For the numbers
  \<open>'5'\<close>, \<open>'CN-12'\<close> and \<open>'7'\<close> the result is \<open>'13'\<close>.
\<close>

theorem C7_next_contract_number:
  "get_next_contract_number db = next_number_spec db \<and>
   get_next_contract_number numbered_store = ''13''"
  using get_next_contract_number_refines numbered_store_next by simp

theorem C7_next_contract_number_witness:
  "next_number_spec numbered_store = ''13''"
proof -
  have "get_next_contract_number numbered_store = next_number_spec numbered_store"
    using C7_next_contract_number [of numbered_store] by (rule conjunct1)
  moreover have "get_next_contract_number numbered_store = ''13''"
    using C7_next_contract_number [of numbered_store] by (rule conjunct2)
  ultimately show ?thesis by simp
qed

section \<open>The model matcher\<close>

lemma first_filter: "first (filter P xs) = find P xs"
  by (induction xs) (auto simp: first_def)

lemma sql_eq_True [simp]: "(sql_eq col v = Some True) = (col = Some v)"
  by (cases col) (auto simp: sql_eq_def)

lemma sql_is_null_True [simp]: "(sql_is_null col = Some True) = (col = None)"
  by (simp add: sql_is_null_def)

lemma sa_eq_True [simp]: "(sa_eq col v = Some True) = (col = v)"
  by (cases v) (auto simp: sa_eq_def)

lemma sql_or_True [simp]: "(sql_or a b = Some True) = (a = Some True \<or> b = Some True)"
  by (auto simp: sql_or_def)

lemma sql_and_True [simp]: "(sql_and a b = Some True) = (a = Some True \<and> b = Some True)"
  by (auto simp: sql_and_def)

lemma board_height_filter_eq:
  "board_height_filter form q =
     (case board_height_criterion form of
        Inl e \<Rightarrow> Inl e
      | Inr bh \<Rightarrow> Inr (filter (\<lambda>i. bh \<noteq> None \<longrightarrow> board_height_mm i = bh) q))"
  by (auto simp: board_height_filter_def board_height_criterion_def sql_where_def
      split: option.splits)

lemma find_item_for_form_eq:
  "find_item_for_form db form =
     (case board_height_criterion form of
        Inl e \<Rightarrow> Inl e
      | Inr bh \<Rightarrow>
          (case find (satisfies form bh) (items db) of
             None \<Rightarrow> Inl Model_not_found
           | Some item \<Rightarrow> Inr item))"
proof (cases "board_height_criterion form")
  case (Inl e)
  then show ?thesis
    by (simp add: find_item_for_form_def board_height_filter_eq Let_def)
next
  case (Inr bh)
  have "\<And>P Q xs. filter P (filter Q xs) = filter (\<lambda>x. Q x \<and> P x) xs"
    by simp
  have sat: "satisfies form bh =
    (\<lambda>i. (((((((item_type i = TRAILER \<and> is_active i) \<and>
      (truthy_str (f_size_body form) \<longrightarrow> size_body i = f_size_body form)) \<and>
      (truthy_int (f_axle_count form) \<longrightarrow> axle_count i = f_axle_count form)) \<and>
      (truthy_str (f_wheel_radius form) \<longrightarrow> wheel_radius i = f_wheel_radius form)) \<and>
      (bh \<noteq> None \<longrightarrow> board_height_mm i = bh)) \<and>
      has_jockey_wheel i = Some (f_has_jockey_wheel form = Some 1))) \<and>
      (if f_tent_height_mm form = Some 0
       then has_tent i = Some False \<or> tent_hight_mm i = None
       else has_tent i = Some True \<and> tent_hight_mm i = f_tent_height_mm form))"
    by (auto simp: satisfies_def fun_eq_iff)
  show ?thesis
    unfolding find_item_for_form_def board_height_filter_eq Inr Let_def sum.case
      sql_where_def
    by (simp add: first_filter [symmetric] sat del: split_paired_All cong: conj_cong)
qed


lemma find_split:
  "(find P xs = Some x) = (\<exists>ys zs. xs = ys @ x # zs \<and> P x \<and> (\<forall>y \<in> set ys. \<not> P y))"
proof (induction xs)
  case Nil
  show ?case by simp
next
  case (Cons a xs)
  show ?case
  proof (cases "P a")
    case True
    have "(a = x) = (\<exists>ys zs. a # xs = ys @ x # zs \<and> P x \<and> (\<forall>y \<in> set ys. \<not> P y))"
    proof
      assume "a = x"
      with True have "a # xs = [] @ x # xs \<and> P x \<and> (\<forall>y \<in> set []. \<not> P y)" by simp
      then show "\<exists>ys zs. a # xs = ys @ x # zs \<and> P x \<and> (\<forall>y \<in> set ys. \<not> P y)" by blast
    next
      assume "\<exists>ys zs. a # xs = ys @ x # zs \<and> P x \<and> (\<forall>y \<in> set ys. \<not> P y)"
      then obtain ys zs where e: "a # xs = ys @ x # zs" and n: "\<forall>y \<in> set ys. \<not> P y" by blast
      show "a = x"
      proof (cases ys)
        case Nil
        with e show ?thesis by simp
      next
        case (Cons b bs)
        with e n True show ?thesis by simp
      qed
    qed
    with True show ?thesis by simp
  next
    case False
    have "(\<exists>ys zs. xs = ys @ x # zs \<and> P x \<and> (\<forall>y \<in> set ys. \<not> P y)) =
          (\<exists>ys zs. a # xs = ys @ x # zs \<and> P x \<and> (\<forall>y \<in> set ys. \<not> P y))"
    proof
      assume "\<exists>ys zs. xs = ys @ x # zs \<and> P x \<and> (\<forall>y \<in> set ys. \<not> P y)"
      then obtain ys zs where "xs = ys @ x # zs" "P x" "\<forall>y \<in> set ys. \<not> P y" by blast
      with False have "a # xs = (a # ys) @ x # zs \<and> P x \<and> (\<forall>y \<in> set (a # ys). \<not> P y)"
        by simp
      then show "\<exists>ys zs. a # xs = ys @ x # zs \<and> P x \<and> (\<forall>y \<in> set ys. \<not> P y)" by blast
    next
      assume "\<exists>ys zs. a # xs = ys @ x # zs \<and> P x \<and> (\<forall>y \<in> set ys. \<not> P y)"
      then obtain ys zs where e: "a # xs = ys @ x # zs" and p: "P x"
        and n: "\<forall>y \<in> set ys. \<not> P y" by blast
      show "\<exists>ys zs. xs = ys @ x # zs \<and> P x \<and> (\<forall>y \<in> set ys. \<not> P y)"
      proof (cases ys)
        case Nil
        with e p False show ?thesis by simp
      next
        case (Cons b bs)
        with e n have "xs = bs @ x # zs \<and> (\<forall>y \<in> set bs. \<not> P y)" by simp
        with p show ?thesis by blast
      qed
    qed
    with False Cons.IH show ?thesis by simp
  qed
qed

lemma find_None: "(find P xs = None) = (\<forall>x \<in> set xs. \<not> P x)"
  by (induction xs) auto

lemma find_60:
  "find_item_for_form catalog (mk_form (Some 60) IN_STOCK) =
     Inr (mk_item 2 (Some True) (Some 60))"
  by code_simp

lemma find_0:
  "find_item_for_form catalog (mk_form (Some 0) IN_STOCK) = Inr (mk_item 3 (Some False) None)"
  by code_simp



text \<open>
  C3.  An item returned by the matcher for the tent height \<open>0\<close> has no tent
  (\<open>has_tent\<close> is false) or no tent height; an item returned for a tent height
  \<open>t > 0\<close> has a tent, of height exactly \<open>t\<close>.
\<close>

theorem C3_tent_sentinel:
  "find_item_for_form db form = Inr item \<Longrightarrow>
     (f_tent_height_mm form = Some 0 \<longrightarrow>
        has_tent item = Some False \<or> tent_hight_mm item = None) \<and>
     (\<forall>t. 0 < t \<and> f_tent_height_mm form = Some t \<longrightarrow>
        has_tent item = Some True \<and> tent_hight_mm item = Some t)"
proof -
  assume r: "find_item_for_form db form = Inr item"
  then obtain bh where "find (satisfies form bh) (items db) = Some item"
    by (auto simp: find_item_for_form_eq split: sum.splits option.splits)
  then have "satisfies form bh item"
    by (auto simp: find_split)
  then show ?thesis
    by (auto simp: satisfies_def split: if_splits)
qed


theorem C3_tent_sentinel_witness:
  "find_item_for_form catalog (mk_form (Some 0) IN_STOCK) = Inr (mk_item 3 (Some False) None) \<and>
   has_tent (mk_item 3 (Some False) None) = Some False \<and>
   find_item_for_form catalog (mk_form (Some 60) IN_STOCK) =
     Inr (mk_item 2 (Some True) (Some 60)) \<and>
   has_tent (mk_item 2 (Some True) (Some 60)) = Some True \<and>
   tent_hight_mm (mk_item 2 (Some True) (Some 60)) = Some 60"
  using C3_tent_sentinel [OF find_0] C3_tent_sentinel [OF find_60] find_0 find_60
  by (simp add: mk_form_def mk_item_def)




section \<open>The contract lifecycle\<close>

lemma find_Some_mem: "find P xs = Some x \<Longrightarrow> x \<in> set xs \<and> P x"
  by (induction xs) (auto split: if_splits)

lemma get_contract_Some: "get_contract db i = Some c \<Longrightarrow> c \<in> set (contracts db) \<and> id_c c = i"
  by (auto simp: get_contract_def dest: find_Some_mem)

lemma get_trailer_Some: "get_trailer db i = Some t \<Longrightarrow> t \<in> set (trailers db) \<and> id_t t = i"
  by (auto simp: get_trailer_def dest: find_Some_mem)

lemma get_trailer_None: "(get_trailer db i = None) = (\<forall>t \<in> set (trailers db). id_t t \<noteq> i)"
  by (simp add: get_trailer_def find_None)

lemma contracts_of_Nil: "(contracts_of i cs = []) = (\<forall>c \<in> set cs. trailer_id c \<noteq> Some i)"
  by (auto simp: contracts_of_def sql_where_def filter_empty_conv)

lemma first_None: "(first xs = None) = (xs = [])"
  by (cases xs) (simp_all add: first_def)

lemma others_filter:
  "(filter (\<lambda>x. id_c x \<noteq> i) (contracts_of k (contracts db)) = []) = (\<not> other_contract db i k)"
  by (auto simp: contracts_of_def sql_where_def filter_empty_conv other_contract_def)

lemma others_filter':
  "(contracts_of k (filter (\<lambda>x. id_c x \<noteq> i) (contracts db)) = []) = (\<not> other_contract db i k)"
  by (auto simp: contracts_of_def sql_where_def filter_empty_conv other_contract_def)

lemma in_set_statusE:
  assumes "t' \<in> set (set_status i s ts)"
  obtains t where "t \<in> set ts" and "id_t t = i" and "t' = t\<lparr>status := s\<rparr>"
  | "t' \<in> set ts" and "id_t t' \<noteq> i"
  using assms unfolding set_status_def by (auto split: if_splits)

lemma map_id_set_status: "map id_t (set_status i s ts) = map id_t ts"
  by (induction ts) (simp_all add: set_status_def)

lemma get_trailer_set_status:
  "find (\<lambda>t. id_t t = k) (set_status i s ts) =
     map_option (\<lambda>t. if id_t t = i then t\<lparr>status := s\<rparr> else t) (find (\<lambda>t. id_t t = k) ts)"
  by (induction ts) (simp_all add: set_status_def)

lemma referenced_split:
  assumes "primary_keys db" and "get_contract db i = Some c"
  shows "referenced db t = (trailer_id c = Some (id_t t) \<or> other_contract db i (id_t t))"
proof -
  from assms(2) have c: "c \<in> set (contracts db)" "id_c c = i"
    by (simp_all add: get_contract_Some)
  from assms(1) have inj: "inj_on id_c (set (contracts db))"
    by (simp add: primary_keys_def distinct_map)
  have same: "x = c" if "x \<in> set (contracts db)" "id_c x = i" for x
    using inj that c by (simp add: inj_on_def)
  show ?thesis
    unfolding referenced_def other_contract_def
    using c same by blast
qed

lemma referenced_after_map:
  assumes "get_contract db i = Some c" and c': "trailer_id c' = Some n"
  shows "referenced (db\<lparr>trailers := ts,
            contracts := map (\<lambda>x. if id_c x = i then c' else x) (contracts db)\<rparr>) t =
         (id_t t = n \<or> other_contract db i (id_t t))"
proof -
  from assms(1) have c: "c \<in> set (contracts db)" "id_c c = i"
    by (simp_all add: get_contract_Some)
  let ?k = "id_t t"
  have "(\<exists>x \<in> set (contracts db). trailer_id (if id_c x = i then c' else x) = Some ?k) =
        (?k = n \<or> (\<exists>x \<in> set (contracts db). id_c x \<noteq> i \<and> trailer_id x = Some ?k))"
    (is "?L = ?R")
  proof
    assume ?L
    then obtain x where x: "x \<in> set (contracts db)"
      and r: "trailer_id (if id_c x = i then c' else x) = Some ?k" by blast
    show ?R
    proof (cases "id_c x = i")
      case True
      with r c' show ?thesis by simp
    next
      case False
      with r x show ?thesis by auto
    qed
  next
    assume ?R
    then show ?L
    proof
      assume "?k = n"
      with c c' have "trailer_id (if id_c c = i then c' else c) = Some ?k" by simp
      with c(1) show ?L by blast
    next
      assume "\<exists>x \<in> set (contracts db). id_c x \<noteq> i \<and> trailer_id x = Some ?k"
      then obtain x where "x \<in> set (contracts db)" "id_c x \<noteq> i" "trailer_id x = Some ?k"
        by blast
      then have "x \<in> set (contracts db) \<and> trailer_id (if id_c x = i then c' else x) = Some ?k"
        by simp
      then show ?L by blast
    qed
  qed
  then have "(\<exists>x \<in> set (map (\<lambda>x. if id_c x = i then c' else x) (contracts db)).
                trailer_id x = Some ?k) =
        (?k = n \<or> (\<exists>x \<in> set (contracts db). id_c x \<noteq> i \<and> trailer_id x = Some ?k))"
    by (simp only: set_map bex_simps)
  moreover have "contracts (db\<lparr>trailers := ts,
            contracts := map (\<lambda>x. if id_c x = i then c' else x) (contracts db)\<rparr>) =
          map (\<lambda>x. if id_c x = i then c' else x) (contracts db)"
    by simp
  ultimately show ?thesis
    by (simp only: referenced_def other_contract_def)
qed

lemma referenced_after_filter:
  "referenced (db\<lparr>trailers := ts,
      contracts := filter (\<lambda>x. id_c x \<noteq> i) (contracts db)\<rparr>) t = other_contract db i (id_t t)"
  by (auto simp: referenced_def other_contract_def)

lemma trailer_of_Some:
  "trailer_of db c = Some t \<Longrightarrow> trailer_id c = Some (id_t t) \<and> t \<in> set (trailers db)"
  by (auto simp: trailer_of_def get_trailer_Some split: option.splits)

lemma trailer_of_None:
  "trailer_of db c = None \<Longrightarrow> t \<in> set (trailers db) \<Longrightarrow> trailer_id c \<noteq> Some (id_t t)"
  by (auto simp: trailer_of_def get_trailer_None split: option.splits)

lemma inv_after_create:
  assumes inv: "sold_iff_contract db" and c: "trailer_id c = Some i"
  shows "sold_iff_contract (db\<lparr>trailers := set_status i SOLD (trailers db),
                               contracts := contracts db @ [c]\<rparr>)"
  unfolding sold_iff_contract_def
proof
  let ?db = "db\<lparr>trailers := set_status i SOLD (trailers db), contracts := contracts db @ [c]\<rparr>"
  fix t'
  assume "t' \<in> set (trailers ?db)"
  then have "t' \<in> set (set_status i SOLD (trailers db))" by simp
  then show "(status t' = SOLD) = referenced ?db t'"
  proof (cases rule: in_set_statusE)
    case (1 t)
    with c show ?thesis by (simp add: referenced_def)
  next
    case 2
    with inv have "(status t' = SOLD) = referenced db t'"
      by (simp add: sold_iff_contract_def)
    with 2 c show ?thesis by (auto simp: referenced_def)
  qed
qed



lemma contract_create_at_cases:
  "snd (contract_create_at db db' form) = db' \<and>
     fst (contract_create_at db db' form) \<noteq> Inr (Redirected Contracts_list Contract_created) \<or>
   fst (contract_create_at db db' form) = Inr (Redirected Contracts_list Contract_created) \<and>
     get_trailer db' (form_trailer_id form) \<noteq> None \<and>
     contracts_of (form_trailer_id form) (contracts db') = [] \<and>
     snd (contract_create_at db db' form) =
       db'\<lparr>trailers := set_status (form_trailer_id form) SOLD (trailers db'),
            contracts := contracts db' @
              [(new_contract form (number_for_create db form) (form_trailer_id form))
                 \<lparr>id_c := next_id (map id_c (contracts db'))\<rparr>]\<rparr>"
proof (cases "get_trailer db (form_trailer_id form)")
  case None
  then show ?thesis
    by (simp add: contract_create_at_def)
next
  case (Some t)
  then have i: "id_t t = form_trailer_id form"
    by (simp add: get_trailer_Some)
  show ?thesis
    unfolding contract_create_at_def Let_def commit_new_contract_def Some option.case i
    by simp
qed


lemma contract_create_inv:
  assumes "sold_iff_contract db"
  shows "sold_iff_contract (snd (contract_create db form))"
proof -
  have t: "trailer_id ((new_contract form (number_for_create db form) (form_trailer_id form))
                 \<lparr>id_c := next_id (map id_c (contracts db))\<rparr>) = Some (form_trailer_id form)"
    by (simp add: new_contract_def)
  from contract_create_at_cases [of db db form] inv_after_create [OF assms t] assms
  show ?thesis
    unfolding contract_create_def by (elim disjE conjE) simp_all
qed

lemma contract_delete_eq:
  assumes "get_contract db i = Some c"
  shows "contract_delete db i =
     (Inr (Redirected Contracts_list Contract_deleted),
      db\<lparr>trailers :=
           (case trailer_of db c of
              None \<Rightarrow> trailers db
            | Some t \<Rightarrow> if other_contract db i (id_t t) then trailers db
                        else set_status (id_t t) IN_STOCK (trailers db)),
         contracts := filter (\<lambda>x. id_c x \<noteq> i) (contracts db)\<rparr>)"
proof -
  from assms have "id_c c = i" by (simp add: get_contract_Some)
  with assms show ?thesis
    by (simp add: contract_delete_def Let_def others_filter' split: option.splits)
qed

lemma inv_pointwise:
  assumes "primary_keys db" and "sold_iff_contract db" and "get_contract db i = Some c"
    and "t \<in> set (trailers db)"
  shows "(status t = SOLD) = (trailer_id c = Some (id_t t) \<or> other_contract db i (id_t t))"
  using assms referenced_split [OF assms(1) assms(3), of t]
  by (simp add: sold_iff_contract_def)

lemma contract_edit_cases:
  assumes gc: "get_contract db i = Some c"
  shows "snd (contract_edit db i form) = db \<and>
           fst (contract_edit db i form) \<noteq> Inr (Redirected Contracts_list Contract_updated) \<or>
         get_trailer db (form_trailer_id form) \<noteq> None \<and>
         \<not> other_contract db i (form_trailer_id form) \<and>
         contract_edit db i form =
           (Inr (Redirected Contracts_list Contract_updated),
            db\<lparr>trailers :=
                 set_status (form_trailer_id form) SOLD
                   (case trailer_of db c of
                      None \<Rightarrow> trailers db
                    | Some old \<Rightarrow>
                        if id_t old \<noteq> form_trailer_id form \<and> \<not> other_contract db i (id_t old)
                        then set_status (id_t old) IN_STOCK (trailers db)
                        else trailers db),
               contracts :=
                 map (\<lambda>x. if id_c x = i
                           then assign_form c form (norm_str (form_contract_number form))
                                  (form_trailer_id form)
                           else x)
                     (contracts db)\<rparr>)"
proof (cases "get_trailer db (form_trailer_id form)")
  case None
  with gc show ?thesis
    by (simp add: contract_edit_def)
next
  case (Some n)
  then have n: "id_t n = form_trailer_id form"
    by (simp add: get_trailer_Some)
  from gc have i: "id_c c = i"
    by (simp add: get_contract_Some)
  show ?thesis
    unfolding contract_edit_def gc Some option.case Let_def n i first_None others_filter
      length_0_conv
    by (simp split: option.splits)
qed

lemma contract_edit_inv:
  assumes pk: "primary_keys db" and inv: "sold_iff_contract db"
  shows "sold_iff_contract (snd (contract_edit db i form))"
proof (cases "get_contract db i")
  case None
  with inv show ?thesis by (simp add: contract_edit_def)
next
  case (Some c)
  note pw = inv_pointwise [OF pk inv Some]
  let ?N = "form_trailer_id form"
  let ?c' = "assign_form c form (norm_str (form_contract_number form)) ?N"
  let ?ts0 = "case trailer_of db c of
                None \<Rightarrow> trailers db
              | Some old \<Rightarrow>
                  if id_t old \<noteq> ?N \<and> \<not> other_contract db i (id_t old)
                  then set_status (id_t old) IN_STOCK (trailers db)
                  else trailers db"
  let ?s = "db\<lparr>trailers := set_status ?N SOLD ?ts0,
               contracts := map (\<lambda>x. if id_c x = i then ?c' else x) (contracts db)\<rparr>"
  from contract_edit_cases [OF Some, of form] show ?thesis
  proof (elim disjE conjE)
    assume "snd (contract_edit db i form) = db"
    with inv show ?thesis by simp
  next
    assume e: "contract_edit db i form = (Inr (Redirected Contracts_list Contract_updated), ?s)"
    have tr: "trailer_id ?c' = Some ?N"
      by (simp add: assign_form_def)
    have r: "referenced ?s t' = (id_t t' = ?N \<or> other_contract db i (id_t t'))" for t'
      by (rule referenced_after_map [OF Some tr])
    have "(status t' = SOLD) = (id_t t' = ?N \<or> other_contract db i (id_t t'))"
      if "t' \<in> set (set_status ?N SOLD ?ts0)" for t'
      using that
    proof (cases rule: in_set_statusE)
      case (1 t0)
      then show ?thesis by simp
    next
      case 2
      have "(status t' = SOLD) = other_contract db i (id_t t')"
      proof (cases "trailer_of db c")
        case None
        with 2 have "t' \<in> set (trailers db)" by simp
        with pw [of t'] trailer_of_None [OF None] show ?thesis by simp
      next
        case (Some old)
        then have c: "trailer_id c = Some (id_t old)" by (simp add: trailer_of_Some)
        show ?thesis
        proof (cases "id_t old \<noteq> ?N \<and> \<not> other_contract db i (id_t old)")
          case True
          with 2 Some have "t' \<in> set (set_status (id_t old) IN_STOCK (trailers db))" by simp
          then show ?thesis
          proof (cases rule: in_set_statusE)
            case (1 t1)
            with True show ?thesis by simp
          next
            case 2
            with pw [of t'] c show ?thesis by simp
          qed
        next
          case False
          with 2 Some have m: "t' \<in> set (trailers db)" by simp
          show ?thesis
          proof (cases "id_t t' = id_t old")
            case True
            with 2 False have "other_contract db i (id_t t')" by simp
            with pw [OF m] show ?thesis by simp
          next
            case False
            with pw [OF m] c show ?thesis by simp
          qed
        qed
      qed
      with 2 show ?thesis by simp
    qed
    then have "sold_iff_contract ?s"
      unfolding sold_iff_contract_def r by simp
    with e show ?thesis by simp
  qed
qed

lemma contract_edit_keys:
  assumes "primary_keys db"
  shows "primary_keys (snd (contract_edit db i form))"
proof (cases "get_contract db i")
  case None
  with assms show ?thesis by (simp add: contract_edit_def)
next
  case (Some c)
  then have i: "id_c c = i" by (simp add: get_contract_Some)
  have m: "map (id_c \<circ> (\<lambda>x. if id_c x = i then assign_form c form cn k else x)) cs =
           map id_c cs" for cn k cs
    by (induction cs) (simp_all add: assign_form_def i)
  from contract_edit_cases [OF Some, of form] assms show ?thesis
    by (elim disjE conjE)
       (simp_all add: primary_keys_def map_id_set_status m split: option.splits)
qed

lemma contract_delete_inv:
  assumes pk: "primary_keys db" and inv: "sold_iff_contract db"
  shows "sold_iff_contract (snd (contract_delete db i))"
proof (cases "get_contract db i")
  case None
  with inv show ?thesis by (simp add: contract_delete_def)
next
  case (Some c)
  note pw = inv_pointwise [OF pk inv Some]
  define s where "s = snd (contract_delete db i)"
  have cs: "contracts s = filter (\<lambda>x. id_c x \<noteq> i) (contracts db)"
    by (simp add: s_def contract_delete_eq [OF Some])
  have ts: "trailers s =
           (case trailer_of db c of
              None \<Rightarrow> trailers db
            | Some t \<Rightarrow> if other_contract db i (id_t t) then trailers db
                        else set_status (id_t t) IN_STOCK (trailers db))"
    by (simp add: s_def contract_delete_eq [OF Some])
  have r: "referenced s t' = other_contract db i (id_t t')" for t'
    by (auto simp: referenced_def other_contract_def cs)
  have "(status t' = SOLD) = other_contract db i (id_t t')" if m: "t' \<in> set (trailers s)" for t'
  proof (cases "trailer_of db c")
    case None
    with m ts have "t' \<in> set (trailers db)" by simp
    with pw [of t'] trailer_of_None [OF None] show ?thesis by simp
  next
    case (Some t)
    then have c: "trailer_id c = Some (id_t t)" by (simp add: trailer_of_Some)
    show ?thesis
    proof (cases "other_contract db i (id_t t)")
      case True
      with m ts Some have "t' \<in> set (trailers db)" by simp
      with pw [of t'] c True show ?thesis by (cases "id_t t' = id_t t") simp_all
    next
      case False
      with m ts Some have "t' \<in> set (set_status (id_t t) IN_STOCK (trailers db))" by simp
      then show ?thesis
      proof (cases rule: in_set_statusE)
        case (1 t0)
        with False show ?thesis by simp
      next
        case 2
        with pw [of t'] c show ?thesis by simp
      qed
    qed
  qed
  then have "sold_iff_contract s"
    by (simp add: sold_iff_contract_def r)
  then show ?thesis by (simp add: s_def)
qed

lemma contract_delete_keys:
  assumes "primary_keys db"
  shows "primary_keys (snd (contract_delete db i))"
proof (cases "get_contract db i")
  case None
  with assms show ?thesis by (simp add: contract_delete_def)
next
  case (Some c)
  from assms show ?thesis
    unfolding contract_delete_eq [OF Some] primary_keys_def
    by (simp add: map_id_set_status distinct_map_filter split: option.splits)
qed


lemma fold_max_ge: "a \<le> fold max ids (a::nat) \<and> (\<forall>x \<in> set ids. x \<le> fold max ids a)"
proof (induction ids arbitrary: a)
  case Nil
  show ?case by simp
next
  case (Cons y ys)
  from Cons [of "max y a"] show ?case by auto
qed

lemma next_id_fresh: "next_id ids \<notin> set ids"
  using fold_max_ge [of 0 ids] by (auto simp: next_id_def)

lemma contract_create_keys:
  assumes "primary_keys db"
  shows "primary_keys (snd (contract_create db form))"
  using contract_create_at_cases [of db db form] assms next_id_fresh [of "map id_c (contracts db)"]
  unfolding contract_create_def
  by (elim disjE conjE) (simp_all add: primary_keys_def map_id_set_status)

lemma reachable_inv:
  assumes "reachable db0 db" and "primary_keys db0" and "sold_iff_contract db0"
  shows "primary_keys db \<and> sold_iff_contract db"
  using assms
proof (induction rule: reachable.induct)
  case start
  then show ?case by simp
next
  case (create db form)
  then show ?case by (simp add: contract_create_keys contract_create_inv)
next
  case (edit db i form)
  then show ?case by (simp add: contract_edit_keys contract_edit_inv)
next
  case (delete db i)
  then show ?case by (simp add: contract_delete_keys contract_delete_inv)
qed

lemma contract_create_at_commit:
  assumes "fst (contract_create_at db d1 form) = Inr (Redirected Contracts_list Contract_created)"
  shows "contract_create_at db db' form =
     (case commit_new_contract db' (form_trailer_id form)
             (new_contract form (number_for_create db form) (form_trailer_id form)) of
        Inl IntegrityError \<Rightarrow> (Inr (Rendered Contract_form (Some Save_conflict)), db')
      | Inl StaleDataError \<Rightarrow> (Inl (DbError StaleDataError), db')
      | Inr db'' \<Rightarrow> (Inr (Redirected Contracts_list Contract_created), db''))"
proof (cases "get_trailer db (form_trailer_id form)")
  case None
  with assms show ?thesis
    by (simp add: contract_create_at_def split: if_splits)
next
  case (Some t)
  then have i: "id_t t = form_trailer_id form"
    by (simp add: get_trailer_Some)
  from assms have v: "form_validate_on_submit form"
    by (simp add: contract_create_at_def split: if_splits)
  from assms have a: "first (contracts_of (form_trailer_id form) (contracts db)) = None"
    unfolding contract_create_at_def Some option.case i by (simp split: if_splits)
  from assms have b: "status t \<noteq> SOLD"
    unfolding contract_create_at_def Some option.case i by (simp split: if_splits)
  from assms have c: "is_contract_number_unique db (number_for_create db form) None"
    unfolding contract_create_at_def Some option.case i Let_def by (simp split: if_splits)
  show ?thesis
    unfolding contract_create_at_def Some option.case i Let_def
    using v a b c by simp
qed

lemma get_trailer_sold:
  assumes "get_trailer db i \<noteq> None"
  shows "\<exists>t. get_trailer (db\<lparr>trailers := set_status i SOLD (trailers db), contracts := cs\<rparr>) i =
           Some t \<and> status t = SOLD"
proof -
  from assms obtain t0 where t0: "find (\<lambda>t. id_t t = i) (trailers db) = Some t0"
    by (auto simp: get_trailer_def)
  then have "id_t t0 = i" by (auto dest: find_Some_mem)
  with t0 have "get_trailer (db\<lparr>trailers := set_status i SOLD (trailers db), contracts := cs\<rparr>) i =
      Some (t0\<lparr>status := SOLD\<rparr>)"
    by (simp add: get_trailer_def get_trailer_set_status)
  then show ?thesis by simp
qed

text \<open>
  C2.  A \<open>contract_create\<close> that succeeds has, in one commit, appended the new
  contract of the chosen trailer to the contracts and set that trailer's status to
  SOLD.  A request that does not succeed leaves the store as it was at its commit:
  neither the contract nor the status change is in it.  A request that would have
  succeeded alone, and at its commit finds the trailer referenced by a contract that
  another request has committed in the meantime, is answered by the form with the
  conflict message (a response of the view, not a fault).
\<close>

theorem C2_contract_create_atomic:
  "(fst (contract_create_at db db' form) = Inr (Redirected Contracts_list Contract_created) \<longrightarrow>
      (\<exists>c. contracts (snd (contract_create_at db db' form)) = contracts db' @ [c] \<and>
           trailer_id c = Some (form_trailer_id form)) \<and>
      (\<exists>t. get_trailer (snd (contract_create_at db db' form)) (form_trailer_id form) = Some t \<and>
           status t = SOLD)) \<and>
   (fst (contract_create_at db db' form) \<noteq> Inr (Redirected Contracts_list Contract_created) \<longrightarrow>
      snd (contract_create_at db db' form) = db') \<and>
   (fst (contract_create db form) = Inr (Redirected Contracts_list Contract_created) \<and>
    get_trailer db' (form_trailer_id form) \<noteq> None \<and>
    contracts_of (form_trailer_id form) (contracts db') \<noteq> [] \<longrightarrow>
      contract_create_at db db' form = (Inr (Rendered Contract_form (Some Save_conflict)), db'))"
proof (intro conjI impI)
  assume s: "fst (contract_create_at db db' form) = Inr (Redirected Contracts_list Contract_created)"
  let ?c = "(new_contract form (number_for_create db form) (form_trailer_id form))
              \<lparr>id_c := next_id (map id_c (contracts db'))\<rparr>"
  from s contract_create_at_cases [of db db' form]
  have g: "get_trailer db' (form_trailer_id form) \<noteq> None"
    and e: "snd (contract_create_at db db' form) =
       db'\<lparr>trailers := set_status (form_trailer_id form) SOLD (trailers db'),
            contracts := contracts db' @ [?c]\<rparr>"
    by simp_all
  have "contracts (snd (contract_create_at db db' form)) = contracts db' @ [?c] \<and>
        trailer_id ?c = Some (form_trailer_id form)"
    by (simp add: e new_contract_def)
  then show "\<exists>c. contracts (snd (contract_create_at db db' form)) = contracts db' @ [c] \<and>
           trailer_id c = Some (form_trailer_id form)"
    by blast
  from get_trailer_sold [OF g]
  show "\<exists>t. get_trailer (snd (contract_create_at db db' form)) (form_trailer_id form) = Some t \<and>
           status t = SOLD"
    unfolding e .
next
  assume "fst (contract_create_at db db' form) \<noteq> Inr (Redirected Contracts_list Contract_created)"
  with contract_create_at_cases [of db db' form]
  show "snd (contract_create_at db db' form) = db'" by simp
next
  assume a: "fst (contract_create db form) = Inr (Redirected Contracts_list Contract_created) \<and>
    get_trailer db' (form_trailer_id form) \<noteq> None \<and>
    contracts_of (form_trailer_id form) (contracts db') \<noteq> []"
  then have "fst (contract_create_at db db form) = Inr (Redirected Contracts_list Contract_created)"
    by (simp add: contract_create_def)
  from contract_create_at_commit [OF this, of db'] a
  show "contract_create_at db db' form = (Inr (Rendered Contract_form (Some Save_conflict)), db')"
    by (simp add: commit_new_contract_def)
qed

lemma race_first: "fst (contract_create stock_store (mk_contract_form 1 None)) =
    Inr (Redirected Contracts_list Contract_created)"
  by code_simp

lemma race_second: "fst (contract_create stock_store (mk_contract_form 1 (Some ''7''))) =
    Inr (Redirected Contracts_list Contract_created)"
  by code_simp

lemma race_trailer:
  "get_trailer (snd (contract_create stock_store (mk_contract_form 1 None)))
     (form_trailer_id (mk_contract_form 1 (Some ''7''))) \<noteq> None"
  by code_simp

lemma race_duplicate:
  "contracts_of (form_trailer_id (mk_contract_form 1 (Some ''7'')))
     (contracts (snd (contract_create stock_store (mk_contract_form 1 None)))) \<noteq> []"
  by code_simp

theorem C2_contract_create_atomic_witness:
  "(\<exists>t. get_trailer (snd (contract_create stock_store (mk_contract_form 1 None))) 1 = Some t \<and>
        status t = SOLD) \<and>
   contract_create_at stock_store (snd (contract_create stock_store (mk_contract_form 1 None)))
       (mk_contract_form 1 (Some ''7'')) =
     (Inr (Rendered Contract_form (Some Save_conflict)),
      snd (contract_create stock_store (mk_contract_form 1 None)))"
proof -
  have f: "form_trailer_id (mk_contract_form (Suc 0) None) = Suc 0"
    by (simp add: mk_contract_form_def)
  have "\<exists>t. get_trailer (snd (contract_create stock_store (mk_contract_form 1 None))) 1 = Some t \<and>
        status t = SOLD"
    using C2_contract_create_atomic [of stock_store stock_store "mk_contract_form 1 None"]
      race_first
    by (simp add: contract_create_def f)
  moreover have "contract_create_at stock_store
       (snd (contract_create stock_store (mk_contract_form 1 None)))
       (mk_contract_form 1 (Some ''7'')) =
     (Inr (Rendered Contract_form (Some Save_conflict)),
      snd (contract_create stock_store (mk_contract_form 1 None)))"
    using C2_contract_create_atomic [of stock_store
        "snd (contract_create stock_store (mk_contract_form 1 None))"
        "mk_contract_form 1 (Some ''7'')"]
      race_second race_trailer race_duplicate
    by simp
  ultimately show ?thesis by simp
qed

lemma trailer_create_status:
  assumes "trailer_create db tf = (Inr (Redirected Trailers_list Trailer_created), s)"
  shows "\<exists>t. trailers s = trailers db @ [t] \<and> status t = f_status tf"
proof (cases "find_item_for_form db tf")
  case (Inl e)
  with assms show ?thesis
    by (simp add: trailer_create_def split: if_splits)
next
  case (Inr item)
  let ?t = "\<lparr>id_t = next_id (map id_t (trailers db)), vin = strip (f_vin tf),
             item_id = id_i item, warehouse_id = f_warehouse_id tf,
             manufacture_date = f_manufacture_date tf, status = f_status tf\<rparr>"
  from assms Inr have "s = db\<lparr>trailers := trailers db @ [?t]\<rparr>"
    by (simp add: trailer_create_def Let_def split: if_splits)
  then have "trailers s = trailers db @ [?t] \<and> status ?t = f_status tf"
    by simp
  then show ?thesis by blast
qed

lemma trailer_edit_status:
  assumes "trailer_edit db k tf = (Inr (Redirected Trailers_list Trailer_updated), s)"
    and "t \<in> set (trailers s)" and "id_t t = k"
  shows "status t = f_status tf"
proof (cases "get_trailer db k")
  case None
  with assms show ?thesis by (simp add: trailer_edit_def)
next
  case (Some t0)
  then have k: "id_t t0 = k" by (simp add: get_trailer_Some)
  show ?thesis
  proof (cases "find_item_for_form db tf")
    case (Inl e)
    with assms Some show ?thesis
      by (simp add: trailer_edit_def split: if_splits)
  next
    case (Inr item)
    let ?t = "t0\<lparr>vin := strip (f_vin tf), warehouse_id := f_warehouse_id tf,
                manufacture_date := f_manufacture_date tf, status := f_status tf,
                item_id := id_i item\<rparr>"
    from assms(1) Some Inr
    have "s = db\<lparr>trailers := map (\<lambda>t. if id_t t = k then ?t else t) (trailers db)\<rparr>"
      by (simp add: trailer_edit_def Let_def split: if_splits)
    with assms(2) obtain u where "u \<in> set (trailers db)" "t = (if id_t u = k then ?t else u)"
      by auto
    with assms(3) show ?thesis
      by (cases "id_t u = k") simp_all
  qed
qed

text \<open>
  C1 (as amended).  From a store with unique primary keys in which a trailer is SOLD
  exactly when a contract references it, every store reached by
  \<open>contract_create\<close>, \<open>contract_edit\<close> and \<open>contract_delete\<close> has both
  properties again, and each of the three operations keeps the invariant.
  \<open>trailer_create\<close> and \<open>trailer_edit\<close> store the status chosen in the form as it
  is.
\<close>

theorem C1_contract_operations_keep_invariant:
  "(primary_keys db0 \<and> sold_iff_contract db0 \<and> reachable db0 db \<longrightarrow>
      primary_keys db \<and> sold_iff_contract db \<and>
      sold_iff_contract (snd (contract_create db form)) \<and>
      sold_iff_contract (snd (contract_edit db i form)) \<and>
      sold_iff_contract (snd (contract_delete db i))) \<and>
   (trailer_create d tf = (Inr (Redirected Trailers_list Trailer_created), s) \<longrightarrow>
      (\<exists>t. trailers s = trailers d @ [t] \<and> status t = f_status tf)) \<and>
   (trailer_edit d k tf = (Inr (Redirected Trailers_list Trailer_updated), s) \<longrightarrow>
      (\<forall>t \<in> set (trailers s). id_t t = k \<longrightarrow> status t = f_status tf))"
proof (intro conjI impI ballI)
  assume a: "primary_keys db0 \<and> sold_iff_contract db0 \<and> reachable db0 db"
  then have r: "primary_keys db \<and> sold_iff_contract db"
    using reachable_inv by blast
  from r show "primary_keys db" ..
  from r show "sold_iff_contract db" ..
  from r show "sold_iff_contract (snd (contract_create db form))"
    by (simp add: contract_create_inv)
  from r show "sold_iff_contract (snd (contract_edit db i form))"
    by (simp add: contract_edit_inv)
  from r show "sold_iff_contract (snd (contract_delete db i))"
    by (simp add: contract_delete_inv)
next
  assume "trailer_create d tf = (Inr (Redirected Trailers_list Trailer_created), s)"
  then show "\<exists>t. trailers s = trailers d @ [t] \<and> status t = f_status tf"
    by (rule trailer_create_status)
next
  fix t
  assume "trailer_edit d k tf = (Inr (Redirected Trailers_list Trailer_updated), s)"
    and "t \<in> set (trailers s)" and "id_t t = k"
  then show "status t = f_status tf"
    by (rule trailer_edit_status)
qed

lemma stock_keys: "primary_keys stock_store"
  by code_simp

lemma stock_inv: "sold_iff_contract stock_store"
  by code_simp

lemma catalog_create_sold:
  "trailer_create catalog (mk_form (Some 0) SOLD) =
     (Inr (Redirected Trailers_list Trailer_created),
      catalog\<lparr>trailers := trailers catalog @
         [\<lparr>id_t = 2, vin = ''X9A00000100001'', item_id = 3, warehouse_id = 1,
           manufacture_date = None, status = SOLD\<rparr>]\<rparr>)"
  by code_simp

theorem C1_contract_operations_keep_invariant_witness:
  "sold_iff_contract (snd (contract_create stock_store (mk_contract_form 1 None))) \<and>
   sold_iff_contract (snd (contract_edit stock_store 1 (mk_contract_form 1 None))) \<and>
   sold_iff_contract (snd (contract_delete stock_store 1)) \<and>
   (\<exists>t. trailers (catalog\<lparr>trailers := trailers catalog @
         [\<lparr>id_t = 2, vin = ''X9A00000100001'', item_id = 3, warehouse_id = 1,
           manufacture_date = None, status = SOLD\<rparr>]\<rparr>) = trailers catalog @ [t] \<and>
        status t = f_status (mk_form (Some 0) SOLD))"
  using C1_contract_operations_keep_invariant [where ?db0.0 = stock_store and db = stock_store
      and form = "mk_contract_form 1 None" and i = 1 and d = catalog
      and tf = "mk_form (Some 0) SOLD" and k = 1
      and s = "catalog\<lparr>trailers := trailers catalog @
         [\<lparr>id_t = 2, vin = ''X9A00000100001'', item_id = 3, warehouse_id = 1,
           manufacture_date = None, status = SOLD\<rparr>]\<rparr>"]
    stock_keys stock_inv reachable.start [of stock_store] catalog_create_sold
  by simp

text \<open>
  C1 as stated fails for \<open>trailer_create\<close>: the form offers the status SOLD, and a
  trailer created with it is SOLD without any contract.
\<close>

theorem C1_trailer_create_counterexample:
  "primary_keys catalog \<and> sold_iff_contract catalog \<and>
   fst (trailer_create catalog (mk_form (Some 0) SOLD)) =
     Inr (Redirected Trailers_list Trailer_created) \<and>
   \<not> sold_iff_contract (snd (trailer_create catalog (mk_form (Some 0) SOLD)))"
  by code_simp

lemma sold_get: "get_contract sold_store 1 = Some (mk_contract 1 (Some ''5'') (Some 1))"
  by code_simp

lemma double_get: "get_contract double_store 1 = Some (mk_contract 1 (Some ''5'') (Some 1))"
  by code_simp

lemma sold_trailer: "trailer_of sold_store (mk_contract 1 (Some ''5'') (Some 1)) = Some (mk_trailer 1 SOLD)"
  by code_simp

lemma double_trailer:
  "trailer_of double_store (mk_contract 1 (Some ''5'') (Some 1)) = Some (mk_trailer 1 SOLD)"
  by code_simp

lemma sold_unreferenced: "\<not> referenced (snd (contract_delete sold_store 1)) (mk_trailer 1 SOLD)"
  by code_simp

lemma double_referenced: "referenced (snd (contract_delete double_store 1)) (mk_trailer 1 SOLD)"
  by code_simp

text \<open>
  C6.  Deleting an existing contract removes it from the contracts.  When the contract
  referenced a trailer, the trailers are unchanged if a contract of the resulting store
  still references that trailer (a SOLD trailer stays SOLD), and otherwise the trailer's
  status is set to IN_STOCK; a contract without a trailer leaves the trailers unchanged.
\<close>

theorem C6_contract_delete:
  "get_contract db i = Some c \<Longrightarrow>
     fst (contract_delete db i) = Inr (Redirected Contracts_list Contract_deleted) \<and>
     contracts (snd (contract_delete db i)) = filter (\<lambda>x. id_c x \<noteq> i) (contracts db) \<and>
     get_contract (snd (contract_delete db i)) i = None \<and>
     (trailer_of db c = None \<longrightarrow> trailers (snd (contract_delete db i)) = trailers db) \<and>
     (\<forall>t. trailer_of db c = Some t \<longrightarrow>
        trailers (snd (contract_delete db i)) =
          (if referenced (snd (contract_delete db i)) t then trailers db
           else set_status (id_t t) IN_STOCK (trailers db)))"
proof -
  assume gc: "get_contract db i = Some c"
  define s where "s = snd (contract_delete db i)"
  have cs: "contracts s = filter (\<lambda>x. id_c x \<noteq> i) (contracts db)"
    by (simp add: s_def contract_delete_eq [OF gc])
  have ts: "trailers s =
           (case trailer_of db c of
              None \<Rightarrow> trailers db
            | Some t \<Rightarrow> if other_contract db i (id_t t) then trailers db
                        else set_status (id_t t) IN_STOCK (trailers db))"
    by (simp add: s_def contract_delete_eq [OF gc])
  have r: "referenced s t = other_contract db i (id_t t)" for t
    by (auto simp: referenced_def other_contract_def cs)
  have g: "get_contract s i = None"
    by (simp add: get_contract_def cs find_None)
  have "fst (contract_delete db i) = Inr (Redirected Contracts_list Contract_deleted)"
    by (simp add: contract_delete_eq [OF gc])
  moreover have "trailer_of db c = None \<longrightarrow> trailers s = trailers db"
    by (simp add: ts)
  moreover have "\<forall>t. trailer_of db c = Some t \<longrightarrow>
        trailers s = (if referenced s t then trailers db
                      else set_status (id_t t) IN_STOCK (trailers db))"
    by (simp add: ts r)
  ultimately show ?thesis
    using cs g unfolding s_def by simp
qed

theorem C6_contract_delete_witness:
  "trailers (snd (contract_delete sold_store 1)) = set_status 1 IN_STOCK (trailers sold_store) \<and>
   get_trailer (snd (contract_delete sold_store 1)) 1 = Some (mk_trailer 1 IN_STOCK) \<and>
   trailers (snd (contract_delete double_store 1)) = trailers double_store \<and>
   get_trailer (snd (contract_delete double_store 1)) 1 = Some (mk_trailer 1 SOLD)"
proof -
  have i: "id_t (mk_trailer 1 SOLD) = 1"
    by (simp add: mk_trailer_def)
  have a: "trailers (snd (contract_delete sold_store 1)) =
           set_status 1 IN_STOCK (trailers sold_store)"
    using C6_contract_delete [OF sold_get] sold_trailer sold_unreferenced i by simp
  have b: "trailers (snd (contract_delete double_store 1)) = trailers double_store"
    using C6_contract_delete [OF double_get] double_trailer double_referenced by simp
  have c: "find (\<lambda>t. id_t t = 1) (set_status 1 IN_STOCK (trailers sold_store)) =
           Some (mk_trailer 1 IN_STOCK)"
    by code_simp
  have d: "find (\<lambda>t. id_t t = 1) (trailers double_store) = Some (mk_trailer 1 SOLD)"
    by code_simp
  from a b c d show ?thesis
    by (simp add: get_trailer_def)
qed

section \<open>The signing workflow\<close>

lemma get_contract_update:
  assumes "get_contract (w_store w) i = Some c" and "\<And>x. id_c (f x) = id_c x"
  shows "get_contract (w_store (update_contract i f w)) i = Some (f c)"
proof -
  have "find (\<lambda>c. id_c c = i) (map (\<lambda>c. if id_c c = i then f c else c) cs) =
        map_option f (find (\<lambda>c. id_c c = i) cs)" for cs
    by (induction cs) (simp_all add: assms(2))
  with assms(1) show ?thesis
    by (simp add: get_contract_def update_contract_def)
qed

lemma trace_update [simp]: "w_trace (update_contract i f w) = w_trace w"
  by (simp add: update_contract_def)

lemma send_cases:
  "send e rq w = (Inl SigexNotConfigured, w) \<and> cert_tuple e = Inl SigexNotConfigured \<or>
   (\<exists>cert. cert_tuple e = Inr cert) \<and>
     (send e rq w = (Inl UpstreamError, w\<lparr>w_trace := w_trace w @ [rq]\<rparr>) \<and>
        remote e (w_trace w) rq = None \<or>
      (\<exists>r. send e rq w = (Inr r, w\<lparr>w_trace := w_trace w @ [rq]\<rparr>) \<and>
        remote e (w_trace w) rq = Some r))"
proof (cases "cert_tuple e")
  case (Inl f)
  then have "f = SigexNotConfigured"
    by (auto simp: cert_tuple_def Let_def split: if_splits)
  with Inl show ?thesis by (simp add: send_def)
next
  case (Inr cert)
  then show ?thesis
    by (cases "remote e (w_trace w) rq") (simp_all add: send_def)
qed

lemma send_outcome:
  obtains f where "send e rq w = (Inl f, w)"
  | f where "send e rq w = (Inl f, w\<lparr>w_trace := w_trace w @ [rq]\<rparr>)"
  | r where "send e rq w = (Inr r, w\<lparr>w_trace := w_trace w @ [rq]\<rparr>)"
  using send_cases [of e rq w] by blast

lemma unregistered_get:
  "get_contract (w_store unregistered_world) 1 = Some (mk_contract 1 (Some ''5'') (Some 1))"
  by code_simp

lemma unregistered_doc:
  "\<not> truthy_str (sigex_document_id (mk_contract 1 (Some ''5'') (Some 1)))"
  by code_simp

lemma registered_get: "get_contract (w_store registered_world) 1 = Some registered_contract"
  by code_simp

lemma registered_doc: "truthy_str (sigex_document_id registered_contract)"
  by code_simp

lemma env_cert:
  "cert_tuple (sigex_env a) = Inr (''/etc/sigex/client.crt'', ''/etc/sigex/client.key'')"
  by (simp add: sigex_env_def) code_simp

lemma preregister_stored:
  assumes "get_contract (w_store w) i = Some c" and "truthy_str (sigex_document_id c)"
  shows "contract_sigex_preregister e i w =
           (Inr (Jsonified [(''documentId'', json_of (sigex_document_id c))]), w)"
  using assms by (simp add: contract_sigex_preregister_def)

lemma preregister_fresh:
  assumes gc: "get_contract (w_store w) i = Some c"
    and un: "\<not> truthy_str (sigex_document_id c)"
    and ok: "contract_sigex_preregister e i w = (Inr resp, w1)"
  shows "\<exists>v pdf. resp = Jsonified [(''documentId'', v)] \<and>
           w1 = update_contract i (\<lambda>c. c\<lparr>sigex_document_id := to_text v\<rparr>)
                  (w\<lparr>w_trace := w_trace w @
                     [\<lparr>rq_method = POST, rq_path = ''/api'', rq_params = [],
                       rq_body = JsonBody (register_payload c)\<rparr>,
                      \<lparr>rq_method = POST, rq_path = ''/api/'' @ py_str v @ ''/data'',
                       rq_params = [], rq_body = OctetBody pdf\<rparr>]\<rparr>)"
proof -
  let ?reg = "\<lparr>rq_method = POST, rq_path = ''/api'', rq_params = [],
               rq_body = JsonBody (register_payload c)\<rparr>"
  let ?w1 = "w\<lparr>w_trace := w_trace w @ [?reg]\<rparr>"
  have d: "contract_sigex_preregister e i w =
     (case send e ?reg w of
        (Inl f, w1) \<Rightarrow> (Inl f, w1)
      | (Inr reg, w1) \<Rightarrow>
          (case map_of reg ''documentId'' of
             None \<Rightarrow> (Inl (KeyError ''documentId''), w1)
           | Some document_id \<Rightarrow>
               (case contract_pdf_bytes e (w_store w1) i of
                  None \<Rightarrow> (Inl RendererError, w1)
                | Some pdf_bytes \<Rightarrow>
                    (case send e \<lparr>rq_method = POST,
                                  rq_path = ''/api/'' @ py_str document_id @ ''/data'',
                                  rq_params = [], rq_body = OctetBody pdf_bytes\<rparr> w1 of
                       (Inl f, w2) \<Rightarrow> (Inl f, w2)
                     | (Inr ack, w2) \<Rightarrow>
                         (Inr (Jsonified [(''documentId'', document_id)]),
                          update_contract i
                            (\<lambda>c. c\<lparr>sigex_document_id := to_text document_id\<rparr>) w2)))))"
    unfolding contract_sigex_preregister_def sigex_post_json_def sigex_post_octet_def
    using gc un by simp
  show ?thesis
  proof (cases rule: send_outcome [of e ?reg w])
    case (1 f)
    with d ok show ?thesis by simp
  next
    case (2 f)
    with d ok show ?thesis by simp
  next
    case (3 reg)
    note first = 3
    show ?thesis
    proof (cases "map_of reg ''documentId''")
      case None
      with d ok first show ?thesis by simp
    next
      case (Some v)
      note v = Some
      show ?thesis
      proof (cases "contract_pdf_bytes e (w_store w) i")
        case None
        with d ok first v show ?thesis by simp
      next
        case (Some pdf)
        let ?up = "\<lparr>rq_method = POST, rq_path = ''/api/'' @ py_str v @ ''/data'',
                     rq_params = [], rq_body = OctetBody pdf\<rparr>"
        from d first v Some have d2: "contract_sigex_preregister e i w =
            (case send e ?up ?w1 of
               (Inl f, w2) \<Rightarrow> (Inl f, w2)
             | (Inr ack, w2) \<Rightarrow>
                 (Inr (Jsonified [(''documentId'', v)]),
                  update_contract i (\<lambda>c. c\<lparr>sigex_document_id := to_text v\<rparr>) w2))"
          by simp
        show ?thesis
        proof (cases rule: send_outcome [of e ?up ?w1])
          case (1 f)
          with d2 ok show ?thesis by simp
        next
          case (2 f)
          with d2 ok show ?thesis by simp
        next
          case (3 ack)
          with d2 ok have "resp = Jsonified [(''documentId'', v)] \<and>
             w1 = update_contract i (\<lambda>c. c\<lparr>sigex_document_id := to_text v\<rparr>)
                    (w\<lparr>w_trace := w_trace w @ [?reg, ?up]\<rparr>)"
            by simp
          then show ?thesis by blast
        qed
      qed
    qed
  qed
qed

text \<open>
  C5.  When the contract has a stored (non-empty) document id, Preregister answers with
  that id and changes nothing: no request is sent and the store is as before.  So when
  a first call on a contract without a document id answers with the document id
  \<open>d\<close>, it has sent exactly the registration and the upload for \<open>d\<close>, and a
  second call answers with the same \<open>d\<close> and sends nothing.
\<close>

theorem C5_preregister_idempotent:
  "get_contract (w_store w) i = Some c \<Longrightarrow>
     (truthy_str (sigex_document_id c) \<longrightarrow>
        contract_sigex_preregister e i w =
          (Inr (Jsonified [(''documentId'', json_of (sigex_document_id c))]), w)) \<and>
     (\<not> truthy_str (sigex_document_id c) \<and> d \<noteq> [] \<and>
      contract_sigex_preregister e i w = (Inr (Jsonified [(''documentId'', JStr d)]), w1) \<longrightarrow>
        (\<exists>pdf. w_trace w1 = w_trace w @
           [\<lparr>rq_method = POST, rq_path = ''/api'', rq_params = [],
             rq_body = JsonBody (register_payload c)\<rparr>,
            \<lparr>rq_method = POST, rq_path = ''/api/'' @ d @ ''/data'', rq_params = [],
             rq_body = OctetBody pdf\<rparr>]) \<and>
        contract_sigex_preregister e i w1 = (Inr (Jsonified [(''documentId'', JStr d)]), w1))"
proof (intro conjI impI)
  assume gc: "get_contract (w_store w) i = Some c"
  {
    assume "truthy_str (sigex_document_id c)"
    with gc show "contract_sigex_preregister e i w =
          (Inr (Jsonified [(''documentId'', json_of (sigex_document_id c))]), w)"
      by (rule preregister_stored)
  }
  assume a: "\<not> truthy_str (sigex_document_id c) \<and> d \<noteq> [] \<and>
      contract_sigex_preregister e i w = (Inr (Jsonified [(''documentId'', JStr d)]), w1)"
  then obtain v pdf where v: "Jsonified [(''documentId'', JStr d)] = Jsonified [(''documentId'', v)]"
    and w1: "w1 = update_contract i (\<lambda>c. c\<lparr>sigex_document_id := to_text v\<rparr>)
                  (w\<lparr>w_trace := w_trace w @
                     [\<lparr>rq_method = POST, rq_path = ''/api'', rq_params = [],
                       rq_body = JsonBody (register_payload c)\<rparr>,
                      \<lparr>rq_method = POST, rq_path = ''/api/'' @ py_str v @ ''/data'',
                       rq_params = [], rq_body = OctetBody pdf\<rparr>]\<rparr>)"
    using preregister_fresh [OF gc] by blast
  from v have vd: "v = JStr d" by simp
  from w1 vd have "w_trace w1 = w_trace w @
           [\<lparr>rq_method = POST, rq_path = ''/api'', rq_params = [],
             rq_body = JsonBody (register_payload c)\<rparr>,
            \<lparr>rq_method = POST, rq_path = ''/api/'' @ d @ ''/data'', rq_params = [],
             rq_body = OctetBody pdf\<rparr>]"
    by (simp add: py_str_def)
  then show "\<exists>pdf. w_trace w1 = w_trace w @
           [\<lparr>rq_method = POST, rq_path = ''/api'', rq_params = [],
             rq_body = JsonBody (register_payload c)\<rparr>,
            \<lparr>rq_method = POST, rq_path = ''/api/'' @ d @ ''/data'', rq_params = [],
             rq_body = OctetBody pdf\<rparr>]"
    by blast
  have "get_contract (w_store w1) i = Some (c\<lparr>sigex_document_id := to_text v\<rparr>)"
    unfolding w1 by (rule get_contract_update) (simp_all add: gc)
  then have g1: "get_contract (w_store w1) i = Some (c\<lparr>sigex_document_id := Some d\<rparr>)"
    by (simp add: vd to_text_def)
  from a have "truthy_str (sigex_document_id (c\<lparr>sigex_document_id := Some d\<rparr>))"
    by (simp add: truthy_str_def)
  from preregister_stored [OF g1 this, of e]
  show "contract_sigex_preregister e i w1 = (Inr (Jsonified [(''documentId'', JStr d)]), w1)"
    by (simp add: json_of_def)
qed

lemma preregister_first:
  "fst (contract_sigex_preregister (sigex_env (Some [])) 1 unregistered_world) =
     Inr (Jsonified [(''documentId'', JStr ''doc-1'')])"
  by code_simp

lemma preregister_requests:
  "map rq_path (w_trace (snd (contract_sigex_preregister (sigex_env (Some [])) 1
      unregistered_world))) = [''/api'', ''/api/doc-1/data'']"
  by code_simp

theorem C5_preregister_idempotent_witness:
  "contract_sigex_preregister (sigex_env (Some [])) 1 unregistered_world =
     (Inr (Jsonified [(''documentId'', JStr ''doc-1'')]),
      snd (contract_sigex_preregister (sigex_env (Some [])) 1 unregistered_world)) \<and>
   contract_sigex_preregister (sigex_env (Some [])) 1
       (snd (contract_sigex_preregister (sigex_env (Some [])) 1 unregistered_world)) =
     (Inr (Jsonified [(''documentId'', JStr ''doc-1'')]),
      snd (contract_sigex_preregister (sigex_env (Some [])) 1 unregistered_world)) \<and>
   map rq_path (w_trace (snd (contract_sigex_preregister (sigex_env (Some [])) 1
      unregistered_world))) = [''/api'', ''/api/doc-1/data'']"
proof -
  have p: "contract_sigex_preregister (sigex_env (Some [])) 1 unregistered_world =
     (Inr (Jsonified [(''documentId'', JStr ''doc-1'')]),
      snd (contract_sigex_preregister (sigex_env (Some [])) 1 unregistered_world))"
    using preregister_first by (simp add: prod_eq_iff)
  have n: "''doc-1'' \<noteq> []" by simp
  from C5_preregister_idempotent [OF unregistered_get, where d = "''doc-1''"
      and e = "sigex_env (Some [])"
      and ?w1.0 = "snd (contract_sigex_preregister (sigex_env (Some [])) 1 unregistered_world)"]
    unregistered_doc p n
  have "contract_sigex_preregister (sigex_env (Some [])) 1
       (snd (contract_sigex_preregister (sigex_env (Some [])) 1 unregistered_world)) =
     (Inr (Jsonified [(''documentId'', JStr ''doc-1'')]),
      snd (contract_sigex_preregister (sigex_env (Some [])) 1 unregistered_world))"
    by blast
  with p preregister_requests show ?thesis by blast
qed

text \<open>
  C8.  Polling the QR status of a contract that lacks a stored document id or a stored
  operation id ends with the 400 abort "No active operation", and the world is as
  before: no request has been sent and no field of the contract has changed.
\<close>

theorem C8_poll_requires_ids:
  "get_contract (w_store w) i = Some c \<Longrightarrow>
   \<not> (truthy_str (sigex_document_id c) \<and> truthy_str (sigex_operation_id c)) \<Longrightarrow>
     contract_sigex_qr_status e i w = (Inl (BadRequest ''No active operation''), w)"
  by (simp add: contract_sigex_qr_status_def)

lemma unregistered_ids:
  "\<not> (truthy_str (sigex_document_id (mk_contract 1 (Some ''5'') (Some 1))) \<and>
      truthy_str (sigex_operation_id (mk_contract 1 (Some ''5'') (Some 1))))"
  by code_simp

theorem C8_poll_requires_ids_witness:
  "contract_sigex_qr_status (sigex_env (Some [])) 1 unregistered_world =
     (Inl (BadRequest ''No active operation''), unregistered_world)"
  using C8_poll_requires_ids [OF unregistered_get unregistered_ids] .

lemma start_qr_eq:
  assumes gc: "get_contract (w_store w) i = Some c"
    and doc: "truthy_str (sigex_document_id c)"
  shows "contract_sigex_start_qr e i w =
     (case send e \<lparr>rq_method = POST,
                    rq_path = ''/api/'' @ fmt (sigex_document_id c) @ ''/egovQr'',
                    rq_params = [], rq_body = JsonBody (start_qr_payload c)\<rparr> w of
        (Inl f, w1) \<Rightarrow> (Inl f, w1)
      | (Inr res, w1) \<Rightarrow>
          (case map_of res ''operationId'' of
             None \<Rightarrow> (Inl (KeyError ''operationId''), w1)
           | Some operation_id \<Rightarrow>
               (Inr (Jsonified res),
                update_contract i
                  (\<lambda>c. c\<lparr>sigex_operation_id := to_text operation_id,
                         sigex_last_status := Some ''qr_started''\<rparr>) w1)))"
  unfolding contract_sigex_start_qr_def sigex_post_json_def
  using gc doc by simp

lemma start_qr_fault_store:
  assumes "fst (contract_sigex_start_qr e i w) = Inl f"
  shows "w_store (snd (contract_sigex_start_qr e i w)) = w_store w"
proof (cases "get_contract (w_store w) i")
  case None
  then show ?thesis by (simp add: contract_sigex_start_qr_def)
next
  case (Some c)
  show ?thesis
  proof (cases "truthy_str (sigex_document_id c)")
    case False
    with Some show ?thesis by (simp add: contract_sigex_start_qr_def)
  next
    case True
    let ?rq = "\<lparr>rq_method = POST,
                 rq_path = ''/api/'' @ fmt (sigex_document_id c) @ ''/egovQr'',
                 rq_params = [], rq_body = JsonBody (start_qr_payload c)\<rparr>"
    note d = start_qr_eq [OF Some True, of e]
    show ?thesis
    proof (cases rule: send_outcome [of e ?rq w])
      case (1 f')
      with d show ?thesis by simp
    next
      case (2 f')
      with d show ?thesis by simp
    next
      case (3 res)
      show ?thesis
      proof (cases "map_of res ''operationId''")
        case None
        with d 3 show ?thesis by simp
      next
        case (Some op)
        with d 3 assms show ?thesis by simp
      qed
    qed
  qed
qed

text \<open>
  C9.  Whenever Start QR signing ends with a fault, the store is as before: the
  operation id and the last status of the contract are what they were.  In particular a
  call of the service that raises (a timeout) ends the request with that fault after
  the one request was sent.  The two fields are assigned, together, when the service
  has answered with an operation id.
\<close>

theorem C9_start_qr_failure:
  "(fst (contract_sigex_start_qr e i w) = Inl f \<longrightarrow>
      w_store (snd (contract_sigex_start_qr e i w)) = w_store w) \<and>
   (get_contract (w_store w) i = Some c \<and> truthy_str (sigex_document_id c) \<and>
    cert_tuple e = Inr cert \<and>
    remote e (w_trace w)
      \<lparr>rq_method = POST, rq_path = ''/api/'' @ fmt (sigex_document_id c) @ ''/egovQr'',
       rq_params = [], rq_body = JsonBody (start_qr_payload c)\<rparr> = None \<longrightarrow>
      contract_sigex_start_qr e i w =
        (Inl UpstreamError,
         w\<lparr>w_trace := w_trace w @
             [\<lparr>rq_method = POST, rq_path = ''/api/'' @ fmt (sigex_document_id c) @ ''/egovQr'',
               rq_params = [], rq_body = JsonBody (start_qr_payload c)\<rparr>]\<rparr>)) \<and>
   (get_contract (w_store w) i = Some c \<and> truthy_str (sigex_document_id c) \<and>
    cert_tuple e = Inr cert \<and>
    remote e (w_trace w)
      \<lparr>rq_method = POST, rq_path = ''/api/'' @ fmt (sigex_document_id c) @ ''/egovQr'',
       rq_params = [], rq_body = JsonBody (start_qr_payload c)\<rparr> = Some res \<and>
    map_of res ''operationId'' = Some op \<longrightarrow>
      contract_sigex_start_qr e i w =
        (Inr (Jsonified res),
         update_contract i
           (\<lambda>c. c\<lparr>sigex_operation_id := to_text op, sigex_last_status := Some ''qr_started''\<rparr>)
           (w\<lparr>w_trace := w_trace w @
             [\<lparr>rq_method = POST, rq_path = ''/api/'' @ fmt (sigex_document_id c) @ ''/egovQr'',
               rq_params = [], rq_body = JsonBody (start_qr_payload c)\<rparr>]\<rparr>)))"
proof (intro conjI impI)
  assume "fst (contract_sigex_start_qr e i w) = Inl f"
  then show "w_store (snd (contract_sigex_start_qr e i w)) = w_store w"
    by (rule start_qr_fault_store)
next
  let ?rq = "\<lparr>rq_method = POST, rq_path = ''/api/'' @ fmt (sigex_document_id c) @ ''/egovQr'',
       rq_params = [], rq_body = JsonBody (start_qr_payload c)\<rparr>"
  assume a: "get_contract (w_store w) i = Some c \<and> truthy_str (sigex_document_id c) \<and>
    cert_tuple e = Inr cert \<and> remote e (w_trace w) ?rq = None"
  then have "send e ?rq w = (Inl UpstreamError, w\<lparr>w_trace := w_trace w @ [?rq]\<rparr>)"
    by (simp add: send_def)
  with a show "contract_sigex_start_qr e i w =
        (Inl UpstreamError, w\<lparr>w_trace := w_trace w @ [?rq]\<rparr>)"
    by (simp add: start_qr_eq)
next
  let ?rq = "\<lparr>rq_method = POST, rq_path = ''/api/'' @ fmt (sigex_document_id c) @ ''/egovQr'',
       rq_params = [], rq_body = JsonBody (start_qr_payload c)\<rparr>"
  assume a: "get_contract (w_store w) i = Some c \<and> truthy_str (sigex_document_id c) \<and>
    cert_tuple e = Inr cert \<and> remote e (w_trace w) ?rq = Some res \<and>
    map_of res ''operationId'' = Some op"
  then have "send e ?rq w = (Inr res, w\<lparr>w_trace := w_trace w @ [?rq]\<rparr>)"
    by (simp add: send_def)
  with a show "contract_sigex_start_qr e i w =
        (Inr (Jsonified res),
         update_contract i
           (\<lambda>c. c\<lparr>sigex_operation_id := to_text op, sigex_last_status := Some ''qr_started''\<rparr>)
           (w\<lparr>w_trace := w_trace w @ [?rq]\<rparr>))"
    by (simp add: start_qr_eq)
qed

lemma start_qr_timeout:
  "fst (contract_sigex_start_qr (sigex_env None) 1 registered_world) = Inl UpstreamError"
  by code_simp

lemma start_qr_path:
  "''/api/'' @ fmt (sigex_document_id registered_contract) @ ''/egovQr'' = ''/api/doc-1/egovQr''"
  by code_simp

lemma start_qr_remote:
  "remote (sigex_env a) (w_trace registered_world)
     \<lparr>rq_method = POST, rq_path = ''/api/doc-1/egovQr'', rq_params = [],
      rq_body = JsonBody (start_qr_payload registered_contract)\<rparr> = a"
  by (simp add: sigex_env_def)

theorem C9_start_qr_failure_witness:
  "contract_sigex_start_qr (sigex_env None) 1 registered_world =
     (Inl UpstreamError,
      registered_world\<lparr>w_trace := w_trace registered_world @
         [\<lparr>rq_method = POST, rq_path = ''/api/doc-1/egovQr'', rq_params = [],
           rq_body = JsonBody (start_qr_payload registered_contract)\<rparr>]\<rparr>) \<and>
   w_store (snd (contract_sigex_start_qr (sigex_env None) 1 registered_world)) =
     w_store registered_world \<and>
   contract_sigex_start_qr (sigex_env (Some [(''operationId'', JStr ''op-9'')])) 1
       registered_world =
     (Inr (Jsonified [(''operationId'', JStr ''op-9'')]),
      update_contract 1
        (\<lambda>c. c\<lparr>sigex_operation_id := to_text (JStr ''op-9''),
               sigex_last_status := Some ''qr_started''\<rparr>)
        (registered_world\<lparr>w_trace := w_trace registered_world @
           [\<lparr>rq_method = POST, rq_path = ''/api/doc-1/egovQr'', rq_params = [],
             rq_body = JsonBody (start_qr_payload registered_contract)\<rparr>]\<rparr>))"
proof -
  have m: "map_of [(''operationId'', JStr ''op-9'')] ''operationId'' = Some (JStr ''op-9'')"
    by simp
  note c9 = C9_start_qr_failure [where i = 1 and w = registered_world
      and c = registered_contract
      and cert = "(''/etc/sigex/client.crt'', ''/etc/sigex/client.key'')"
      and f = UpstreamError, unfolded start_qr_path]
  have "contract_sigex_start_qr (sigex_env None) 1 registered_world =
     (Inl UpstreamError,
      registered_world\<lparr>w_trace := w_trace registered_world @
         [\<lparr>rq_method = POST, rq_path = ''/api/doc-1/egovQr'', rq_params = [],
           rq_body = JsonBody (start_qr_payload registered_contract)\<rparr>]\<rparr>)"
    using c9 [where e = "sigex_env None"] registered_get registered_doc env_cert
      start_qr_remote [of None]
    by blast
  moreover have "w_store (snd (contract_sigex_start_qr (sigex_env None) 1 registered_world)) =
     w_store registered_world"
    using c9 [where e = "sigex_env None"] start_qr_timeout by blast
  moreover have "contract_sigex_start_qr (sigex_env (Some [(''operationId'', JStr ''op-9'')])) 1
       registered_world =
     (Inr (Jsonified [(''operationId'', JStr ''op-9'')]),
      update_contract 1
        (\<lambda>c. c\<lparr>sigex_operation_id := to_text (JStr ''op-9''),
               sigex_last_status := Some ''qr_started''\<rparr>)
        (registered_world\<lparr>w_trace := w_trace registered_world @
           [\<lparr>rq_method = POST, rq_path = ''/api/doc-1/egovQr'', rq_params = [],
             rq_body = JsonBody (start_qr_payload registered_contract)\<rparr>]\<rparr>))"
    using c9 [where e = "sigex_env (Some [(''operationId'', JStr ''op-9'')])"
        and res = "[(''operationId'', JStr ''op-9'')]" and op = "JStr ''op-9''"]
      registered_get registered_doc env_cert
      start_qr_remote [of "Some [(''operationId'', JStr ''op-9'')]"] m
    by blast
  ultimately show ?thesis by blast
qed









end
